theory Spec2Isabelle
  imports Main "HOL-Library.Sublist"
begin

section \<open>Chat Assistant: the session model of \<^verbatim>\<open>app.py\<close>\<close>

text \<open>
  The program is one Streamlit script. Its state is \<^verbatim>\<open>st.session_state\<close>, a dictionary
  with the four keys \<^verbatim>\<open>chat_history\<close>, \<^verbatim>\<open>conversation\<close>, \<^verbatim>\<open>model\<close> and
  \<^verbatim>\<open>memory_length\<close>; every handler reads and mutates it. The model passes this state
  explicitly. A key that is absent is \<open>None\<close>; reading an absent key raises
  \<^verbatim>\<open>AttributeError\<close> in Streamlit, and the model returns that exception as a value.

  Python strings are modelled as HOL strings read as UTF-8 byte sequences.
\<close>

subsection \<open>Exceptions\<close>

text \<open>
  An exception carries the text that \<^verbatim>\<open>str(e)\<close> returns. The first four constructors are
  instances of Python's \<^verbatim>\<open>Exception\<close>: the attribute errors of the interpreter, the
  \<^verbatim>\<open>ValueError\<close> of \<^verbatim>\<open>list.index\<close>, and the errors of the two external libraries (the
  client constructor and the remote completion call). \<open>BaseException\<close> stands for an
  instance of \<^verbatim>\<open>BaseException\<close> that is not an instance of \<^verbatim>\<open>Exception\<close>
  (\<^verbatim>\<open>KeyboardInterrupt\<close>, \<^verbatim>\<open>SystemExit\<close>, \<^verbatim>\<open>GeneratorExit\<close>), which an
  \<^verbatim>\<open>except Exception\<close> clause does not catch.
\<close>

datatype py_exn =
    AttributeError string
  | ValueError string
  | ClientError string
  | RemoteError string
  | BaseException string

fun str :: "py_exn \<Rightarrow> string" where
  "str (AttributeError s) = s"
| "str (ValueError s) = s"
| "str (ClientError s) = s"
| "str (RemoteError s) = s"
| "str (BaseException s) = s"

text \<open>\<^verbatim>\<open>isinstance(e, Exception)\<close>.\<close>

fun is_Exception :: "py_exn \<Rightarrow> bool" where
  "is_Exception (AttributeError s) = True"
| "is_Exception (ValueError s) = True"
| "is_Exception (ClientError s) = True"
| "is_Exception (RemoteError s) = True"
| "is_Exception (BaseException s) = False"

datatype outcome = Returned | Raised py_exn

subsection \<open>Module constants\<close>

definition SUPPORTED_MODELS :: "string list" where
  "SUPPORTED_MODELS = [''llama-3.1-8b-instant'', ''deepseek-r1-distill-qwen-32b'']"

text \<open>
  \<^verbatim>\<open>groq_api_key = os.getenv("GROQ_API_KEY")\<close> is \<^verbatim>\<open>None\<close> when the variable is unset.
  It is read once at import and never written, so the model takes it as the argument
  \<open>groq_api_key :: string option\<close> of the functions that read it. Its truth value, as
  tested by \<^verbatim>\<open>if groq_api_key\<close>, is that of a non-empty string.
\<close>

definition truthy :: "string option \<Rightarrow> bool" where
  "truthy v = (case v of None \<Rightarrow> False | Some s \<Rightarrow> s \<noteq> [])"

subsection \<open>Turns and the bounded-window memory\<close>

text \<open>A transcript entry is the dictionary \<^verbatim>\<open>{'human': ..., 'AI': ...}\<close>.\<close>

record message =
  human :: string
  AI :: string

text \<open>
  Modelled from the spec: \<^verbatim>\<open>ConversationBufferWindowMemory\<close> belongs to the external
  library langchain and is not under src/. The spec describes it as a bounded-window
  memory keeping at most \<open>k\<close> most-recent turns, with the oldest evicted first.
  \<open>window n xs\<close> is the list of the last \<open>n\<close> elements of \<open>xs\<close> (all of \<open>xs\<close> when it is
  shorter, none when \<open>n \<le> 0\<close>).
\<close>

record ConversationBufferWindowMemory =
  k :: int
  buffer :: "message list"

definition window :: "int \<Rightarrow> 'a list \<Rightarrow> 'a list" where
  "window n xs = drop (length xs - nat n) xs"

definition new_memory :: "int \<Rightarrow> ConversationBufferWindowMemory" where
  "new_memory n = \<lparr>k = n, buffer = []\<rparr>"

definition save_context ::
  "ConversationBufferWindowMemory \<Rightarrow> string \<Rightarrow> string \<Rightarrow> ConversationBufferWindowMemory" where
  "save_context m inp out =
     m\<lparr>buffer := window (k m) (buffer m @ [\<lparr>human = inp, AI = out\<rparr>])\<rparr>"

subsection \<open>The completion client and the conversation chain\<close>

text \<open>
  Modelled from the spec: \<^verbatim>\<open>ChatGroq\<close> belongs to the external library langchain_groq
  and is not under src/. The spec describes a remote completion client bound to a model
  and a provided credential, built without a network call. The object keeps the two
  keyword arguments it is built from. Whether the constructor rejects its arguments is
  library behaviour that the source does not show: it is the parameter \<open>validate\<close>, which
  returns the exception the constructor raises, or \<open>None\<close> when it accepts.
\<close>

record ChatGroq_client =
  api_key :: "string option"
  model_name :: string

type_synonym validation = "string option \<Rightarrow> string \<Rightarrow> py_exn option"

definition ChatGroq :: "validation \<Rightarrow> string option \<Rightarrow> string \<Rightarrow> py_exn + ChatGroq_client" where
  "ChatGroq validate key name =
     (case validate key name of
        Some e \<Rightarrow> Inl e
      | None \<Rightarrow> Inr \<lparr>api_key = key, model_name = name\<rparr>)"

text \<open>
  Modelled from the spec: \<^verbatim>\<open>ConversationChain\<close> belongs to the external library langchain
  and is not under src/. The remote completion API accepts the client's model, the ordered
  list of prior turns limited to the window, and the new utterance, and returns the reply
  text or raises; it is the parameter \<open>remote\<close>. \<open>invoke\<close> submits the question with the
  memory's buffer as context; on a reply the new turn becomes part of the chain's own
  memory, and on a failure the chain is as before.
\<close>

record ConversationChain =
  llm :: ChatGroq_client
  memory :: ConversationBufferWindowMemory

type_synonym remote_api = "ChatGroq_client \<Rightarrow> message list \<Rightarrow> string \<Rightarrow> py_exn + string"

definition invoke ::
  "remote_api \<Rightarrow> ConversationChain \<Rightarrow> string \<Rightarrow> py_exn + (string \<times> ConversationChain)" where
  "invoke remote c inp =
     (case remote (llm c) (buffer (memory c)) inp of
        Inl e \<Rightarrow> Inl e
      | Inr reply \<Rightarrow> Inr (reply, c\<lparr>memory := save_context (memory c) inp reply\<rparr>))"

subsection \<open>Session state and what the user sees\<close>

text \<open>
  \<open>conversation = None\<close>: the key is absent; \<open>Some None\<close>: the key holds Python's
  \<^verbatim>\<open>None\<close> (the session is unset); \<open>Some (Some c)\<close>: it holds a chain.
\<close>

record session_state =
  chat_history :: "message list option"
  conversation :: "ConversationChain option option"
  model :: "string option"
  memory_length :: "int option"

text \<open>
  What a handler shows or sends is appended to a log of events, so that "nothing is
  shown" and "no request is sent" are statements about the log. Page layout (titles,
  subheaders, the page configuration) is left out.
\<close>

datatype event =
    chat_message string string  \<comment> \<open>\<^verbatim>\<open>st.chat_message(role).write(text)\<close>\<close>
  | placeholder_text string     \<comment> \<open>\<^verbatim>\<open>thinking_placeholder.text(text)\<close>\<close>
  | placeholder_empty           \<comment> \<open>\<^verbatim>\<open>thinking_placeholder.empty()\<close>\<close>
  | st_write string
  | st_error string
  | st_success string
  | st_rerun
  | request ChatGroq_client "message list" string  \<comment> \<open>one call of the remote completion API\<close>

record app =
  st :: session_state
  events :: "event list"

definition emit :: "event list \<Rightarrow> app \<Rightarrow> app" where
  "emit es a = a\<lparr>events := events a @ es\<rparr>"

text \<open>The \<^verbatim>\<open>AttributeError\<close> of Streamlit for a key that the session state does not hold.\<close>

definition attr_missing :: "string \<Rightarrow> py_exn" where
  "attr_missing key =
     AttributeError
       (''st.session_state has no attribute '' @ [CHR 0x22] @ key @ [CHR 0x22]
        @ ''. Did you forget to initialize it? ''
        @ ''More info: https://docs.streamlit.io/develop/concepts/architecture/session-state#initialization'')"

subsection \<open>\<^verbatim>\<open>initialize_session_state\<close>\<close>

definition initialize_session_state :: "session_state \<Rightarrow> session_state" where
  "initialize_session_state s0 =
     (let s1 = (if chat_history s0 = None then s0\<lparr>chat_history := Some []\<rparr> else s0);
          s2 = (if conversation s1 = None then s1\<lparr>conversation := Some None\<rparr> else s1);
          s3 = (if model s2 = None then s2\<lparr>model := Some (SUPPORTED_MODELS ! 0)\<rparr> else s2);
          s4 = (if memory_length s3 = None then s3\<lparr>memory_length := Some 5\<rparr> else s3)
      in s4)"

subsection \<open>\<^verbatim>\<open>create_conversation\<close>\<close>

text \<open>
  The memory is built and preloaded first (the loop over \<^verbatim>\<open>st.session_state.chat_history\<close>,
  oldest turn first), then the client, then the chain. The function reads the session
  state and writes nothing.
\<close>

definition preload :: "ConversationBufferWindowMemory \<Rightarrow> message list \<Rightarrow> ConversationBufferWindowMemory" where
  "preload m messages = foldl (\<lambda>m' message. save_context m' (human message) (AI message)) m messages"

definition create_conversation ::
  "validation \<Rightarrow> string option \<Rightarrow> session_state \<Rightarrow> string \<Rightarrow> int \<Rightarrow> py_exn + ConversationChain" where
  "create_conversation validate groq_api_key s model' memory_length' =
     (let memory0 = new_memory memory_length' in
      case chat_history s of
        None \<Rightarrow> Inl (attr_missing ''chat_history'')
      | Some messages \<Rightarrow>
          (let memory1 = preload memory0 messages in
           case ChatGroq validate groq_api_key model' of
             Inl e \<Rightarrow> Inl e
           | Inr groq_chat \<Rightarrow> Inr \<lparr>llm = groq_chat, memory = memory1\<rparr>))"

subsection \<open>\<^verbatim>\<open>str.strip\<close>\<close>

text \<open>
  \<^verbatim>\<open>user_question.strip()\<close> removes leading and trailing whitespace: the characters for
  which \<^verbatim>\<open>str.isspace\<close> holds. \<open>whitespace\<close> lists their UTF-8 encodings: U+0009 to
  U+000D, U+001C to U+0020, U+0085, U+00A0, U+1680, U+2000 to U+200A, U+2028, U+2029,
  U+202F, U+205F and U+3000.
\<close>

definition whitespace :: "string list" where
  "whitespace =
     [[CHR 0x09], [CHR 0x0A], [CHR 0x0B], [CHR 0x0C], [CHR 0x0D],
      [CHR 0x1C], [CHR 0x1D], [CHR 0x1E], [CHR 0x1F], [CHR 0x20],
      [CHR 0xC2, CHR 0x85], [CHR 0xC2, CHR 0xA0], [CHR 0xE1, CHR 0x9A, CHR 0x80],
      [CHR 0xE2, CHR 0x80, CHR 0x80], [CHR 0xE2, CHR 0x80, CHR 0x81],
      [CHR 0xE2, CHR 0x80, CHR 0x82], [CHR 0xE2, CHR 0x80, CHR 0x83],
      [CHR 0xE2, CHR 0x80, CHR 0x84], [CHR 0xE2, CHR 0x80, CHR 0x85],
      [CHR 0xE2, CHR 0x80, CHR 0x86], [CHR 0xE2, CHR 0x80, CHR 0x87],
      [CHR 0xE2, CHR 0x80, CHR 0x88], [CHR 0xE2, CHR 0x80, CHR 0x89],
      [CHR 0xE2, CHR 0x80, CHR 0x8A], [CHR 0xE2, CHR 0x80, CHR 0xA8],
      [CHR 0xE2, CHR 0x80, CHR 0xA9], [CHR 0xE2, CHR 0x80, CHR 0xAF],
      [CHR 0xE2, CHR 0x81, CHR 0x9F], [CHR 0xE3, CHR 0x80, CHR 0x80]]"

text \<open>\<open>lstrip_tokens toks s\<close> removes from the front of \<open>s\<close> every leading token of \<open>toks\<close>.\<close>

function lstrip_tokens :: "string list \<Rightarrow> string \<Rightarrow> string" where
  "lstrip_tokens toks s =
     (case find (\<lambda>w. w \<noteq> [] \<and> prefix w s) toks of
        None \<Rightarrow> s
      | Some w \<Rightarrow> lstrip_tokens toks (drop (length w) s))"
  by pat_completeness auto
termination
proof (relation "measure (\<lambda>(toks, s). length s)")
  show "wf (measure (\<lambda>(toks, s). length s))" by simp
next
  fix toks :: "string list" and s w :: string
  assume "find (\<lambda>w. w \<noteq> [] \<and> prefix w s) toks = Some w"
  then have "w \<noteq> []" and "prefix w s"
    by (auto simp add: find_Some_iff)
  then have "length w \<noteq> 0" and "length w \<le> length s"
    by (auto simp add: prefix_length_le)
  then have "length s - length w < length s"
    by arith
  then show "((toks, drop (length w) s), (toks, s)) \<in> measure (\<lambda>(toks, s). length s)"
    by simp
qed

declare lstrip_tokens.simps [simp del]

definition strip :: "string \<Rightarrow> string" where
  "strip s = rev (lstrip_tokens (map rev whitespace) (rev (lstrip_tokens whitespace s)))"

subsection \<open>\<^verbatim>\<open>handle_user_input\<close>\<close>

text \<open>
  The \<^verbatim>\<open>AttributeError\<close> of an attribute access on \<^verbatim>\<open>None\<close>; the name stands between
  single quotes (\<open>CHR 0x27\<close>).
\<close>

definition none_has_no_attribute :: "string \<Rightarrow> py_exn" where
  "none_has_no_attribute name =
     AttributeError
       ([CHR 0x27] @ ''NoneType'' @ [CHR 0x27] @ '' object has no attribute ''
        @ [CHR 0x27] @ name @ [CHR 0x27])"

text \<open>The f-string of line 83: the warning sign U+26A0 U+FE0F, then the text.\<close>

definition error_text :: "py_exn \<Rightarrow> string" where
  "error_text e =
     [CHR 0xE2, CHR 0x9A, CHR 0xA0, CHR 0xEF, CHR 0xB8, CHR 0x8F] @ '' Error: '' @ str e"

text \<open>
  The body of the \<^verbatim>\<open>try\<close> block (lines 69 to 79), statement by statement: read the
  conversation from the session state, invoke it (one request to the remote API), append
  the turn to the transcript, show the reply. The chain is an object held by the session
  state, so what \<open>invoke\<close> does to its memory is a change of the session state. Each
  statement can raise, and leaves the state as it was before that statement.
\<close>

definition handle_user_input_try :: "remote_api \<Rightarrow> string \<Rightarrow> app \<Rightarrow> outcome \<times> app" where
  "handle_user_input_try remote user_question a =
     (case conversation (st a) of
        None \<Rightarrow> (Raised (attr_missing ''conversation''), a)
      | Some None \<Rightarrow> (Raised (none_has_no_attribute ''invoke''), a)
      | Some (Some c) \<Rightarrow>
          (let a1 = emit [request (llm c) (buffer (memory c)) user_question] a in
           case invoke remote c user_question of
             Inl e \<Rightarrow> (Raised e, a1)
           | Inr (chatbot_reply, c') \<Rightarrow>
               (let a2 = a1\<lparr>st := (st a1)\<lparr>conversation := Some (Some c')\<rparr>\<rparr> in
                case chat_history (st a2) of
                  None \<Rightarrow> (Raised (attr_missing ''chat_history''), a2)
                | Some h \<Rightarrow>
                    (let message = \<lparr>human = user_question, AI = chatbot_reply\<rparr>;
                         a3 = a2\<lparr>st := (st a2)\<lparr>chat_history := Some (h @ [message])\<rparr>\<rparr>
                     in (Returned, emit [placeholder_empty, st_write chatbot_reply] a3)))))"

text \<open>
  \<^verbatim>\<open>except Exception as e\<close> catches the instances of \<^verbatim>\<open>Exception\<close>: the handler clears
  the placeholder and shows the error, and the function returns. Any other exception
  leaves the function, with the state as the \<^verbatim>\<open>try\<close> block left it.
\<close>

definition handle_user_input :: "remote_api \<Rightarrow> string \<Rightarrow> app \<Rightarrow> outcome \<times> app" where
  "handle_user_input remote user_question a =
     (if strip user_question = [] then (Returned, a)
      else
        (let a1 = emit [chat_message ''user'' user_question, placeholder_text ''Thinking...''] a
         in case handle_user_input_try remote user_question a1 of
              (Returned, a2) \<Rightarrow> (Returned, a2)
            | (Raised e, a2) \<Rightarrow>
                if is_Exception e
                then (Returned, emit [placeholder_empty, st_error (error_text e)] a2)
                else (Raised e, a2)))"

subsection \<open>\<^verbatim>\<open>handle_model_change\<close> and \<^verbatim>\<open>reset_conversation\<close>\<close>

text \<open>\<open>and_then\<close> sequences two statements: the second runs when the first returned.\<close>

definition and_then :: "outcome \<times> app \<Rightarrow> (app \<Rightarrow> outcome \<times> app) \<Rightarrow> outcome \<times> app" where
  "and_then r f = (case r of (Returned, a) \<Rightarrow> f a | (Raised e, a) \<Rightarrow> (Raised e, a))"

text \<open>
  The statement \<^verbatim>\<open>st.session_state.conversation = create_conversation(st.session_state.model,
  st.session_state.memory_length)\<close>, which is the whole of \<^verbatim>\<open>handle_model_change\<close> and also
  stands in \<^verbatim>\<open>reset_conversation\<close> and in \<^verbatim>\<open>main\<close>.
\<close>

definition handle_model_change :: "validation \<Rightarrow> string option \<Rightarrow> app \<Rightarrow> outcome \<times> app" where
  "handle_model_change validate groq_api_key a =
     (case model (st a) of
        None \<Rightarrow> (Raised (attr_missing ''model''), a)
      | Some model' \<Rightarrow>
          (case memory_length (st a) of
             None \<Rightarrow> (Raised (attr_missing ''memory_length''), a)
           | Some memory_length' \<Rightarrow>
               (case create_conversation validate groq_api_key (st a) model' memory_length' of
                  Inl e \<Rightarrow> (Raised e, a)
                | Inr c \<Rightarrow> (Returned, a\<lparr>st := (st a)\<lparr>conversation := Some (Some c)\<rparr>\<rparr>))))"

text \<open>
  \<^verbatim>\<open>st.rerun()\<close> asks Streamlit for a new run of the script. It is recorded as an event
  and leaves the session state alone; it is reached only when the rebuild returned.
\<close>

definition reset_conversation :: "validation \<Rightarrow> string option \<Rightarrow> app \<Rightarrow> outcome \<times> app" where
  "reset_conversation validate groq_api_key a =
     (let a1 = a\<lparr>st := (st a)\<lparr>chat_history := Some []\<rparr>\<rparr> in
      and_then (handle_model_change validate groq_api_key a1)
        (\<lambda>a2. (Returned, emit [st_rerun] a2)))"

subsection \<open>\<^verbatim>\<open>main\<close>\<close>

text \<open>
  One run of the script. What the widgets return in this run is the argument \<open>w\<close>: the
  select box returns one of its options (an element of \<open>SUPPORTED_MODELS\<close>), the slider an
  integer from 1 to 15, the chat input \<^verbatim>\<open>None\<close> or the submitted text. The reset button
  only registers \<^verbatim>\<open>reset_conversation\<close> as its callback, which Streamlit calls before the
  next run; the callback is \<open>reset_conversation\<close> above.
\<close>

record widgets =
  selectbox :: string
  slider :: int
  chat_input :: "string option"

text \<open>
  \<^verbatim>\<open>repr\<close> of a string, as in the text of the \<^verbatim>\<open>ValueError\<close> of \<^verbatim>\<open>list.index\<close>: single
  quotes, or double quotes when the string holds a single quote and no double quote; the
  quote character and the backslash are escaped, tab, newline and carriage return are
  written \<^verbatim>\<open>\t\<close>, \<^verbatim>\<open>\n\<close>, \<^verbatim>\<open>\r\<close>, and the other ASCII control characters in
  hexadecimal. Bytes beyond ASCII are kept, as \<^verbatim>\<open>repr\<close> keeps the printable characters
  they encode.
\<close>

definition hex_digit :: "nat \<Rightarrow> char" where
  "hex_digit d = ''0123456789abcdef'' ! (d mod 16)"

definition repr_char :: "char \<Rightarrow> char \<Rightarrow> string" where
  "repr_char q c =
     (if c = q \<or> c = CHR 0x5C then [CHR 0x5C, c]
      else if c = CHR 0x09 then [CHR 0x5C, CHR ''t'']
      else if c = CHR 0x0A then [CHR 0x5C, CHR ''n'']
      else if c = CHR 0x0D then [CHR 0x5C, CHR ''r'']
      else if (of_char c :: nat) < 32 \<or> c = CHR 0x7F
      then [CHR 0x5C, CHR ''x'', hex_digit (of_char c div 16), hex_digit (of_char c mod 16)]
      else [c])"

definition repr :: "string \<Rightarrow> string" where
  "repr s =
     (let q = (if CHR 0x27 \<in> set s \<and> CHR 0x22 \<notin> set s then CHR 0x22 else CHR 0x27)
      in [q] @ concat (map (repr_char q) s) @ [q])"

definition missing_key_text :: string where
  "missing_key_text =
     [CHR 0xE2, CHR 0x9D, CHR 0x8C] @ '' Groq API key is missing. Please check your .env file.''"

text \<open>The sidebar (lines 113 to 150).\<close>

definition main_sidebar :: "validation \<Rightarrow> string option \<Rightarrow> widgets \<Rightarrow> app \<Rightarrow> outcome \<times> app" where
  "main_sidebar validate groq_api_key w a =
     (case model (st a) of
        None \<Rightarrow> (Raised (attr_missing ''model''), a)
      | Some m \<Rightarrow>
          if m \<notin> set SUPPORTED_MODELS then (Raised (ValueError (repr m @ '' is not in list'')), a)
          else
            and_then
              (if selectbox w \<noteq> m
               then handle_model_change validate groq_api_key
                      (a\<lparr>st := (st a)\<lparr>model := Some (selectbox w)\<rparr>\<rparr>)
               else (Returned, a))
              (\<lambda>a. case memory_length (st a) of
                      None \<Rightarrow> (Raised (attr_missing ''memory_length''), a)
                    | Some n \<Rightarrow>
                        and_then
                          (if slider w \<noteq> n
                           then handle_model_change validate groq_api_key
                                  (a\<lparr>st := (st a)\<lparr>memory_length := Some (slider w)\<rparr>\<rparr>)
                           else (Returned, a))
                          (\<lambda>a. (Returned,
                                 emit [if truthy groq_api_key
                                       then st_success ''Groq API Key: Connected''
                                       else st_error missing_key_text] a))))"

text \<open>The main chat interface (lines 154 to 178).\<close>

definition main_chat ::
  "validation \<Rightarrow> remote_api \<Rightarrow> string option \<Rightarrow> widgets \<Rightarrow> app \<Rightarrow> outcome \<times> app" where
  "main_chat validate remote groq_api_key w a =
     and_then
       (case conversation (st a) of
          None \<Rightarrow> (Raised (attr_missing ''conversation''), a)
        | Some None \<Rightarrow> handle_model_change validate groq_api_key a
        | Some (Some c) \<Rightarrow> (Returned, a))
       (\<lambda>a. case chat_history (st a) of
               None \<Rightarrow> (Raised (attr_missing ''chat_history''), a)
             | Some h \<Rightarrow>
                 (let a1 = emit (concat (map (\<lambda>message. [chat_message ''user'' (human message),
                                                           chat_message ''assistant'' (AI message)]) h)) a
                  in if \<not> truthy groq_api_key then (Returned, emit [st_error missing_key_text] a1)
                     else if truthy (chat_input w) then handle_user_input remote (the (chat_input w)) a1
                     else (Returned, a1)))"

definition main ::
  "validation \<Rightarrow> remote_api \<Rightarrow> string option \<Rightarrow> widgets \<Rightarrow> app \<Rightarrow> outcome \<times> app" where
  "main validate remote groq_api_key w a =
     and_then (main_sidebar validate groq_api_key w (a\<lparr>st := initialize_session_state (st a)\<rparr>))
       (main_chat validate remote groq_api_key w)"

subsection \<open>Sequences of submissions\<close>

text \<open>
  A submission is a question together with the behaviour of the remote API while that
  turn runs. \<open>submit_all\<close> executes the turns one after the other.
\<close>

fun submit_all :: "(remote_api \<times> string) list \<Rightarrow> app \<Rightarrow> app" where
  "submit_all [] a = a"
| "submit_all ((remote, q) # xs) a = submit_all xs (snd (handle_user_input remote q a))"

text \<open>
  A submission is successful when the question is not blank, the session is built and
  the remote API answers its request; \<open>reply_of\<close> is then the answer.
\<close>

definition reply_of :: "remote_api \<Rightarrow> string \<Rightarrow> app \<Rightarrow> string option" where
  "reply_of remote q a =
     (if strip q = [] then None
      else case conversation (st a) of
             None \<Rightarrow> None
           | Some None \<Rightarrow> None
           | Some (Some c) \<Rightarrow>
               (case remote (llm c) (buffer (memory c)) q of
                  Inl e \<Rightarrow> None
                | Inr reply \<Rightarrow> Some reply))"

fun successes :: "(remote_api \<times> string) list \<Rightarrow> app \<Rightarrow> nat" where
  "successes [] a = 0"
| "successes ((remote, q) # xs) a =
     (if reply_of remote q a = None then 0 else 1)
     + successes xs (snd (handle_user_input remote q a))"

fun successful_turns :: "(remote_api \<times> string) list \<Rightarrow> app \<Rightarrow> message list" where
  "successful_turns [] a = []"
| "successful_turns ((remote, q) # xs) a =
     (case reply_of remote q a of
        None \<Rightarrow> []
      | Some reply \<Rightarrow> [\<lparr>human = q, AI = reply\<rparr>])
     @ successful_turns xs (snd (handle_user_input remote q a))"

text \<open>The requests among the events of a log.\<close>

fun is_request :: "event \<Rightarrow> bool" where
  "is_request (request c ctx q) = True"
| "is_request e = False"

definition requests :: "app \<Rightarrow> event list" where
  "requests a = filter is_request (events a)"

section \<open>Properties\<close>

subsection \<open>The window\<close>

lemma length_window: "length (window n xs) = min (length xs) (nat n)"
  by (simp add: window_def)

lemma window_window_append: "window n (window n ys @ xs) = window n (ys @ xs)"
proof (cases "length ys \<le> nat n")
  case True
  then show ?thesis by (simp add: window_def)
next
  case False
  then show ?thesis by (simp add: window_def add.commute)
qed

lemma k_preload: "k (preload m xs) = k m"
  unfolding preload_def by (induction xs arbitrary: m) (simp_all add: save_context_def)

lemma buffer_preload:
  "buffer m = window (k m) (buffer m) \<Longrightarrow> buffer (preload m xs) = window (k m) (buffer m @ xs)"
  unfolding preload_def
proof (induction xs arbitrary: m)
  case Nil
  then show ?case by simp
next
  case (Cons x xs)
  let ?m = "save_context m (human x) (AI x)"
  have kk: "k ?m = k m" by (simp add: save_context_def)
  have b: "buffer ?m = window (k m) (buffer m @ [x])"
    by (cases x) (simp add: save_context_def)
  have "buffer ?m = window (k ?m) (buffer ?m)"
    unfolding kk b by (metis append_Nil2 window_window_append)
  from Cons.IH [OF this]
  show ?case
    unfolding kk b by (simp add: window_window_append)
qed

lemma buffer_preload_new: "buffer (preload (new_memory n) xs) = window n xs"
  using buffer_preload [of "new_memory n" xs] by (simp add: new_memory_def window_def)

subsection \<open>Rebuilding the session\<close>

lemma create_conversation_eq:
  assumes "chat_history s = Some h" and "validate key name = None"
  shows "create_conversation validate key s name n =
           Inr \<lparr>llm = \<lparr>api_key = key, model_name = name\<rparr>,
                memory = \<lparr>k = n, buffer = window n h\<rparr>\<rparr>"
proof -
  have "preload (new_memory n) h = \<lparr>k = n, buffer = window n h\<rparr>"
    using k_preload [of "new_memory n" h] buffer_preload_new [of n h]
    by (cases "preload (new_memory n) h") (simp add: new_memory_def)
  with assms show ?thesis
    by (simp add: create_conversation_def ChatGroq_def)
qed

text \<open>
  C1. For every memory window \<open>n\<close> in \<open>[1,15]\<close> and every transcript \<open>h\<close>, a rebuild whose
  client constructor accepts its arguments returns a chain whose context holds exactly
  \<open>min (length h) n\<close> turns, and they are the last \<open>n\<close> turns of \<open>h\<close> in their original
  order (the transcript with its first \<open>length h - n\<close> turns dropped).
\<close>

theorem create_conversation_bounded_window:
  assumes "1 \<le> n" and "n \<le> 15"
    and "chat_history s = Some h" and "validate key name = None"
  shows "\<exists>c. create_conversation validate key s name n = Inr c
             \<and> k (memory c) = n
             \<and> length (buffer (memory c)) = min (length h) (nat n)
             \<and> buffer (memory c) = drop (length h - nat n) h"
  using assms(3,4) create_conversation_eq [of s h validate key name n]
  by (simp add: length_window) (simp add: window_def)

theorem create_conversation_bounded_window_witness:
  "create_conversation (\<lambda>key name. None) (Some ''gsk'')
     \<lparr>chat_history = Some [\<lparr>human = ''q1'', AI = ''r1''\<rparr>, \<lparr>human = ''q2'', AI = ''r2''\<rparr>,
                            \<lparr>human = ''q3'', AI = ''r3''\<rparr>],
      conversation = Some None, model = Some ''llama-3.1-8b-instant'', memory_length = Some 2\<rparr>
     ''llama-3.1-8b-instant'' 2
   = Inr \<lparr>llm = \<lparr>api_key = Some ''gsk'', model_name = ''llama-3.1-8b-instant''\<rparr>,
          memory = \<lparr>k = 2, buffer = [\<lparr>human = ''q2'', AI = ''r2''\<rparr>, \<lparr>human = ''q3'', AI = ''r3''\<rparr>]\<rparr>\<rparr>"
proof -
  let ?h = "[\<lparr>human = ''q1'', AI = ''r1''\<rparr>, \<lparr>human = ''q2'', AI = ''r2''\<rparr>,
             \<lparr>human = ''q3'', AI = ''r3''\<rparr>]"
  let ?s = "\<lparr>chat_history = Some ?h, conversation = Some None,
             model = Some ''llama-3.1-8b-instant'', memory_length = Some 2\<rparr>"
  have a: "(1::int) \<le> 2" "(2::int) \<le> 15" by simp_all
  have b: "chat_history ?s = Some ?h" by simp
  from create_conversation_bounded_window
    [of 2 ?s ?h "\<lambda>key name. None" "Some ''gsk''" "''llama-3.1-8b-instant''"] a b
  obtain c where "create_conversation (\<lambda>key name. None) (Some ''gsk'') ?s ''llama-3.1-8b-instant'' 2 = Inr c"
    and "k (memory c) = 2" and "buffer (memory c) = drop (length ?h - nat 2) ?h"
    by blast
  moreover have "llm c = \<lparr>api_key = Some ''gsk'', model_name = ''llama-3.1-8b-instant''\<rparr>"
    using calculation(1) by (auto simp add: create_conversation_def ChatGroq_def Let_def)
  ultimately show ?thesis
    by (cases c, cases "memory c") simp
qed

subsection \<open>Frame lemmas\<close>

lemma st_emit: "st (emit es a) = st a"
  by (simp add: emit_def)




lemma strip_blank_example: "strip [CHR 0x20, CHR 0x09, CHR 0x20] = []"
  by (simp add: strip_def lstrip_tokens.simps whitespace_def)

lemma strip_hello: "strip ''hello'' \<noteq> []"
  by (simp add: strip_def lstrip_tokens.simps whitespace_def)

subsection \<open>Initialisation\<close>

text \<open>
  C7. \<open>initialize_session_state\<close> is idempotent and fills defaults only: each key that is
  present keeps its value, and each absent key gets its default, which is the empty
  transcript, the unset conversation, the first entry of \<open>SUPPORTED_MODELS\<close> and the memory
  length 5. A state with all four keys is returned as it is, and the state with none
  becomes the default state. The function is total: it returns a state and raises nothing.
\<close>

theorem initialize_session_state_default_fill:
  "initialize_session_state (initialize_session_state s) = initialize_session_state s
   \<and> chat_history (initialize_session_state s)
       = Some (case chat_history s of None \<Rightarrow> [] | Some h \<Rightarrow> h)
   \<and> conversation (initialize_session_state s)
       = Some (case conversation s of None \<Rightarrow> None | Some c \<Rightarrow> c)
   \<and> model (initialize_session_state s)
       = Some (case model s of None \<Rightarrow> hd SUPPORTED_MODELS | Some m \<Rightarrow> m)
   \<and> memory_length (initialize_session_state s)
       = Some (case memory_length s of None \<Rightarrow> 5 | Some n \<Rightarrow> n)
   \<and> initialize_session_state
         \<lparr>chat_history = Some h, conversation = Some c, model = Some m, memory_length = Some n\<rparr>
       = \<lparr>chat_history = Some h, conversation = Some c, model = Some m, memory_length = Some n\<rparr>
   \<and> initialize_session_state
         \<lparr>chat_history = None, conversation = None, model = None, memory_length = None\<rparr>
       = \<lparr>chat_history = Some [], conversation = Some None,
          model = Some ''llama-3.1-8b-instant'', memory_length = Some 5\<rparr>"
proof -
  have f: "chat_history (initialize_session_state s)
             = Some (case chat_history s of None \<Rightarrow> [] | Some h \<Rightarrow> h)"
    "conversation (initialize_session_state s)
       = Some (case conversation s of None \<Rightarrow> None | Some c \<Rightarrow> c)"
    "model (initialize_session_state s)
       = Some (case model s of None \<Rightarrow> hd SUPPORTED_MODELS | Some m \<Rightarrow> m)"
    "memory_length (initialize_session_state s)
       = Some (case memory_length s of None \<Rightarrow> 5 | Some n \<Rightarrow> n)"
    for s
    by (simp_all add: initialize_session_state_def SUPPORTED_MODELS_def Let_def split: option.split)
  have fixed: "initialize_session_state t = t"
    if "chat_history t \<noteq> None" "conversation t \<noteq> None" "model t \<noteq> None"
      "memory_length t \<noteq> None" for t
    using that by (simp add: initialize_session_state_def Let_def)
  have "initialize_session_state (initialize_session_state s) = initialize_session_state s"
    by (rule fixed) (simp_all add: f)
  moreover have "initialize_session_state
         \<lparr>chat_history = Some h, conversation = Some c, model = Some m, memory_length = Some n\<rparr>
       = \<lparr>chat_history = Some h, conversation = Some c, model = Some m, memory_length = Some n\<rparr>"
    by (rule fixed) simp_all
  moreover have "initialize_session_state
         \<lparr>chat_history = None, conversation = None, model = None, memory_length = None\<rparr>
       = \<lparr>chat_history = Some [], conversation = Some None,
          model = Some ''llama-3.1-8b-instant'', memory_length = Some 5\<rparr>"
    by (simp add: initialize_session_state_def SUPPORTED_MODELS_def Let_def)
  ultimately show ?thesis
    using f [of s] by blast
qed

subsection \<open>Turn execution\<close>

text \<open>
  C3. For every input that is empty after trimming, \<open>handle_user_input\<close> returns at once:
  the whole application state is as before, so the transcript and the conversation are
  unchanged, nothing is shown and no request is sent.
\<close>

theorem handle_user_input_blank:
  "strip user_question = [] \<Longrightarrow> handle_user_input remote user_question a = (Returned, a)"
  by (simp add: handle_user_input_def)

theorem handle_user_input_blank_witness:
  "strip [CHR 0x20, CHR 0x09, CHR 0x20] = [] \<and>
   handle_user_input (\<lambda>c ctx q. Inr ''hi'') [CHR 0x20, CHR 0x09, CHR 0x20]
     \<lparr>st = \<lparr>chat_history = Some [], conversation = Some None,
             model = Some ''llama-3.1-8b-instant'', memory_length = Some 5\<rparr>, events = []\<rparr>
   = (Returned,
      \<lparr>st = \<lparr>chat_history = Some [], conversation = Some None,
              model = Some ''llama-3.1-8b-instant'', memory_length = Some 5\<rparr>, events = []\<rparr>)"
  using handle_user_input_blank [OF strip_blank_example] strip_blank_example by simp

lemma handle_user_input_raised:
  assumes "strip q \<noteq> []"
    and "handle_user_input_try remote q
           (emit [chat_message ''user'' q, placeholder_text ''Thinking...''] a) = (Raised e, a2)"
    and "is_Exception e"
  shows "handle_user_input remote q a = (Returned, emit [placeholder_empty, st_error (error_text e)] a2)"
  using assms by (simp add: handle_user_input_def)

lemma handle_user_input_try_remote_error:
  assumes "conversation (st a) = Some (Some c)"
    and "remote (llm c) (buffer (memory c)) q = Inl e"
  shows "handle_user_input_try remote q a = (Raised e, emit [request (llm c) (buffer (memory c)) q] a)"
  using assms by (simp add: handle_user_input_try_def invoke_def)

lemma handle_user_input_try_unset:
  assumes "conversation (st a) = Some None"
  shows "handle_user_input_try remote q a = (Raised (none_has_no_attribute ''invoke''), a)"
  using assms by (simp add: handle_user_input_try_def)

text \<open>
  What the \<^verbatim>\<open>try\<close> block raises is an attribute error of its own, or what the remote call
  raised on the request made.
\<close>

lemma handle_user_input_try_raises:
  assumes "handle_user_input_try remote q a = (Raised e, a2)"
  shows "is_Exception e
       \<or> (\<exists>c. conversation (st a) = Some (Some c) \<and> remote (llm c) (buffer (memory c)) q = Inl e)"
proof (cases "conversation (st a)")
  case None
  with assms show ?thesis
    by (auto simp add: handle_user_input_try_def attr_missing_def)
next
  case (Some x)
  show ?thesis
  proof (cases x)
    case None
    with Some assms show ?thesis
      by (auto simp add: handle_user_input_try_def none_has_no_attribute_def)
  next
    case (Some c)
    note c = \<open>conversation (st a) = Some x\<close> Some
    show ?thesis
    proof (cases "remote (llm c) (buffer (memory c)) q")
      case (Inl e')
      with c assms show ?thesis
        by (simp add: handle_user_input_try_def invoke_def)
    next
      case (Inr r)
      with c assms show ?thesis
        by (cases "chat_history (st a)")
           (auto simp add: handle_user_input_try_def invoke_def emit_def attr_missing_def)
    qed
  qed
qed



text \<open>
  C10 (amended). \<open>handle_user_input\<close> never lets an instance of \<^verbatim>\<open>Exception\<close> through: for
  every input and every state, when the remote call (if the session is built) answers the
  request made or raises an instance of \<^verbatim>\<open>Exception\<close>, \<open>handle_user_input\<close> returns
  normally. Whenever a statement of the \<^verbatim>\<open>try\<close> block raises \<open>e\<close>, the handler shows the
  error text of \<open>e\<close> and returns; in particular, with an unset conversation (\<^verbatim>\<open>None\<close>) the
  attribute error of \<^verbatim>\<open>None.invoke\<close> is shown, the state is otherwise unchanged and no
  request is sent.
\<close>

theorem handle_user_input_never_raises:
  assumes "\<And>c e. conversation (st a) = Some (Some c)
             \<Longrightarrow> remote (llm c) (buffer (memory c)) q = Inl e \<Longrightarrow> is_Exception e"
  shows "fst (handle_user_input remote q a) = Returned
   \<and> (\<forall>e a2. strip q \<noteq> []
          \<and> handle_user_input_try remote q
               (emit [chat_message ''user'' q, placeholder_text ''Thinking...''] a) = (Raised e, a2)
        \<longrightarrow> handle_user_input remote q a
              = (Returned, emit [placeholder_empty, st_error (error_text e)] a2))
   \<and> (strip q \<noteq> [] \<and> conversation (st a) = Some None
        \<longrightarrow> handle_user_input remote q a
              = (Returned, emit [chat_message ''user'' q, placeholder_text ''Thinking...'',
                                 placeholder_empty,
                                 st_error (error_text (none_has_no_attribute ''invoke''))] a))"
proof -
  let ?a1 = "emit [chat_message ''user'' q, placeholder_text ''Thinking...''] a"
  have caught: "is_Exception e" if "handle_user_input_try remote q ?a1 = (Raised e, a2)" for e a2
    using handle_user_input_try_raises [OF that] assms by (auto simp add: st_emit)
  have shown: "handle_user_input remote q a
              = (Returned, emit [placeholder_empty, st_error (error_text e)] a2)"
    if "strip q \<noteq> []" and "handle_user_input_try remote q ?a1 = (Raised e, a2)" for e a2
    using that caught [OF that(2)] by (rule handle_user_input_raised)
  have "fst (handle_user_input remote q a) = Returned"
  proof (cases "strip q = []")
    case True
    then show ?thesis by (simp add: handle_user_input_def)
  next
    case False
    obtain r a2 where t: "handle_user_input_try remote q ?a1 = (r, a2)"
      by (cases "handle_user_input_try remote q ?a1")
    show ?thesis
    proof (cases r)
      case Returned
      with t False show ?thesis by (simp add: handle_user_input_def)
    next
      case (Raised e)
      with t False shown [of e a2] show ?thesis by simp
    qed
  qed
  moreover have "handle_user_input remote q a
              = (Returned, emit [chat_message ''user'' q, placeholder_text ''Thinking...'',
                                 placeholder_empty,
                                 st_error (error_text (none_has_no_attribute ''invoke''))] a)"
    if "strip q \<noteq> []" "conversation (st a) = Some None"
  proof -
    have "conversation (st ?a1) = Some None"
      using that(2) by (simp add: st_emit)
    then have "handle_user_input_try remote q ?a1 = (Raised (none_has_no_attribute ''invoke''), ?a1)"
      by (rule handle_user_input_try_unset)
    with that(1) have "handle_user_input remote q a
        = (Returned, emit [placeholder_empty, st_error (error_text (none_has_no_attribute ''invoke''))] ?a1)"
      by (rule shown)
    then show ?thesis by (simp add: emit_def)
  qed
  ultimately show ?thesis
    using shown by blast
qed

theorem handle_user_input_never_raises_witness:
  "handle_user_input (\<lambda>c ctx q. Inl (RemoteError ''rate limit'')) ''hello''
     \<lparr>st = \<lparr>chat_history = Some [\<lparr>human = ''q1'', AI = ''r1''\<rparr>],
             conversation = Some (Some \<lparr>llm = \<lparr>api_key = Some ''gsk'', model_name = ''llama-3.1-8b-instant''\<rparr>,
                                        memory = \<lparr>k = 5, buffer = [\<lparr>human = ''q1'', AI = ''r1''\<rparr>]\<rparr>\<rparr>),
             model = Some ''llama-3.1-8b-instant'', memory_length = Some 5\<rparr>,
      events = []\<rparr>
   = (Returned,
     \<lparr>st = \<lparr>chat_history = Some [\<lparr>human = ''q1'', AI = ''r1''\<rparr>],
             conversation = Some (Some \<lparr>llm = \<lparr>api_key = Some ''gsk'', model_name = ''llama-3.1-8b-instant''\<rparr>,
                                        memory = \<lparr>k = 5, buffer = [\<lparr>human = ''q1'', AI = ''r1''\<rparr>]\<rparr>\<rparr>),
             model = Some ''llama-3.1-8b-instant'', memory_length = Some 5\<rparr>,
      events = [chat_message ''user'' ''hello'', placeholder_text ''Thinking...'',
                request \<lparr>api_key = Some ''gsk'', model_name = ''llama-3.1-8b-instant''\<rparr>
                  [\<lparr>human = ''q1'', AI = ''r1''\<rparr>] ''hello'',
                placeholder_empty, st_error (error_text (RemoteError ''rate limit''))]\<rparr>)
   \<and> handle_user_input (\<lambda>c ctx q. Inr ''hi'') ''hello''
     \<lparr>st = \<lparr>chat_history = Some [], conversation = Some None,
             model = Some ''llama-3.1-8b-instant'', memory_length = Some 5\<rparr>, events = []\<rparr>
   = (Returned,
      \<lparr>st = \<lparr>chat_history = Some [], conversation = Some None,
              model = Some ''llama-3.1-8b-instant'', memory_length = Some 5\<rparr>,
       events = [chat_message ''user'' ''hello'', placeholder_text ''Thinking...'',
                 placeholder_empty,
                 st_error (error_text (none_has_no_attribute ''invoke''))]\<rparr>)"
proof -
  let ?c = "\<lparr>llm = \<lparr>api_key = Some ''gsk'', model_name = ''llama-3.1-8b-instant''\<rparr>,
             memory = \<lparr>k = 5, buffer = [\<lparr>human = ''q1'', AI = ''r1''\<rparr>]\<rparr>\<rparr>"
  let ?a = "\<lparr>st = \<lparr>chat_history = Some [\<lparr>human = ''q1'', AI = ''r1''\<rparr>],
             conversation = Some (Some \<lparr>llm = \<lparr>api_key = Some ''gsk'', model_name = ''llama-3.1-8b-instant''\<rparr>,
                                        memory = \<lparr>k = 5, buffer = [\<lparr>human = ''q1'', AI = ''r1''\<rparr>]\<rparr>\<rparr>),
             model = Some ''llama-3.1-8b-instant'', memory_length = Some 5\<rparr>,
      events = []\<rparr>"
  let ?remote = "\<lambda>c ctx q. Inl (RemoteError ''rate limit'') :: py_exn + string"
  let ?a1 = "emit [chat_message ''user'' ''hello'', placeholder_text ''Thinking...''] ?a"
  let ?u = "\<lparr>st = \<lparr>chat_history = Some [], conversation = Some None,
             model = Some ''llama-3.1-8b-instant'', memory_length = Some 5\<rparr>, events = []\<rparr>"
  have exn: "is_Exception e"
    if "conversation (st ?a) = Some (Some c)" "?remote (llm c) (buffer (memory c)) ''hello'' = Inl e"
    for c e
    using that by auto
  have "conversation (st ?a1) = Some (Some ?c)" by (simp add: emit_def)
  moreover have "?remote (llm ?c) (buffer (memory ?c)) ''hello'' = Inl (RemoteError ''rate limit'')"
    by simp
  ultimately have t: "handle_user_input_try ?remote ''hello'' ?a1
      = (Raised (RemoteError ''rate limit''), emit [request (llm ?c) (buffer (memory ?c)) ''hello''] ?a1)"
    by (rule handle_user_input_try_remote_error)
  note inst = handle_user_input_never_raises [of ?a ?remote "''hello''", OF exn]
  note shown = inst [THEN conjunct2, THEN conjunct1, rule_format]
  have "handle_user_input ?remote ''hello'' ?a
          = (Returned, emit [placeholder_empty, st_error (error_text (RemoteError ''rate limit''))]
              (emit [request (llm ?c) (buffer (memory ?c)) ''hello''] ?a1))"
    using strip_hello t by (intro shown conjI)
  then have b: "handle_user_input ?remote ''hello'' ?a = (Returned, \<lparr>st = \<lparr>chat_history = Some [\<lparr>human = ''q1'', AI = ''r1''\<rparr>],
             conversation = Some (Some \<lparr>llm = \<lparr>api_key = Some ''gsk'', model_name = ''llama-3.1-8b-instant''\<rparr>,
                                        memory = \<lparr>k = 5, buffer = [\<lparr>human = ''q1'', AI = ''r1''\<rparr>]\<rparr>\<rparr>),
             model = Some ''llama-3.1-8b-instant'', memory_length = Some 5\<rparr>,
      events = [chat_message ''user'' ''hello'', placeholder_text ''Thinking...'',
                request \<lparr>api_key = Some ''gsk'', model_name = ''llama-3.1-8b-instant''\<rparr>
                  [\<lparr>human = ''q1'', AI = ''r1''\<rparr>] ''hello'',
                placeholder_empty, st_error (error_text (RemoteError ''rate limit''))]\<rparr>)"
    by (simp add: emit_def)
  have "handle_user_input (\<lambda>c ctx q. Inr ''hi'') ''hello'' ?u
          = (Returned, emit [chat_message ''user'' ''hello'', placeholder_text ''Thinking...'',
                             placeholder_empty,
                             st_error (error_text (none_has_no_attribute ''invoke''))] ?u)"
    using handle_user_input_never_raises [of ?u "\<lambda>c ctx q. Inr ''hi''" "''hello''"] strip_hello
    by simp
  then have u: "handle_user_input (\<lambda>c ctx q. Inr ''hi'') ''hello'' ?u = (Returned, \<lparr>st = \<lparr>chat_history = Some [], conversation = Some None,
              model = Some ''llama-3.1-8b-instant'', memory_length = Some 5\<rparr>,
       events = [chat_message ''user'' ''hello'', placeholder_text ''Thinking...'',
                 placeholder_empty,
                 st_error (error_text (none_has_no_attribute ''invoke''))]\<rparr>)"
    by (simp add: emit_def)
  from b u show ?thesis by (rule conjI)
qed

text \<open>
  C10 as stated fails: \<^verbatim>\<open>except Exception\<close> does not catch an exception that is not an
  instance of \<^verbatim>\<open>Exception\<close>. When the remote call raises \<^verbatim>\<open>KeyboardInterrupt\<close> (whose
  \<^verbatim>\<open>str\<close> is empty), the exception leaves \<open>handle_user_input\<close> and no error is shown.
\<close>

theorem handle_user_input_base_exception_counterexample:
  "handle_user_input (\<lambda>c ctx q. Inl (BaseException [])) ''hello''
     \<lparr>st = \<lparr>chat_history = Some [\<lparr>human = ''q1'', AI = ''r1''\<rparr>],
             conversation = Some (Some \<lparr>llm = \<lparr>api_key = Some ''gsk'', model_name = ''llama-3.1-8b-instant''\<rparr>,
                                        memory = \<lparr>k = 5, buffer = [\<lparr>human = ''q1'', AI = ''r1''\<rparr>]\<rparr>\<rparr>),
             model = Some ''llama-3.1-8b-instant'', memory_length = Some 5\<rparr>,
      events = []\<rparr>
   = (Raised (BaseException []),
     \<lparr>st = \<lparr>chat_history = Some [\<lparr>human = ''q1'', AI = ''r1''\<rparr>],
             conversation = Some (Some \<lparr>llm = \<lparr>api_key = Some ''gsk'', model_name = ''llama-3.1-8b-instant''\<rparr>,
                                        memory = \<lparr>k = 5, buffer = [\<lparr>human = ''q1'', AI = ''r1''\<rparr>]\<rparr>\<rparr>),
             model = Some ''llama-3.1-8b-instant'', memory_length = Some 5\<rparr>,
      events = [chat_message ''user'' ''hello'', placeholder_text ''Thinking...'',
                request \<lparr>api_key = Some ''gsk'', model_name = ''llama-3.1-8b-instant''\<rparr>
                  [\<lparr>human = ''q1'', AI = ''r1''\<rparr>] ''hello'']\<rparr>)"
  by (simp add: handle_user_input_def handle_user_input_try_def invoke_def emit_def strip_hello)

subsection \<open>Sequences of turns\<close>

lemma handle_user_input_chat_history:
  assumes "chat_history (st a) = Some h"
  shows "chat_history (st (snd (handle_user_input remote q a)))
           = Some (h @ (case reply_of remote q a of None \<Rightarrow> [] | Some r \<Rightarrow> [\<lparr>human = q, AI = r\<rparr>]))"
proof (cases "strip q = []")
  case True
  with assms show ?thesis by (simp add: handle_user_input_def reply_of_def)
next
  case False
  let ?a1 = "emit [chat_message ''user'' q, placeholder_text ''Thinking...''] a"
  have h1: "chat_history (st ?a1) = Some h" using assms by (simp add: st_emit)
  show ?thesis
  proof (cases "conversation (st a)")
    case None
    with False assms show ?thesis
      by (simp add: handle_user_input_def handle_user_input_try_def reply_of_def st_emit
          attr_missing_def)
  next
    case (Some x)
    show ?thesis
    proof (cases x)
      case None
      with Some False assms show ?thesis
        by (simp add: handle_user_input_def handle_user_input_try_def reply_of_def st_emit
            none_has_no_attribute_def)
    next
      case (Some c)
      note c = \<open>conversation (st a) = Some x\<close> Some
      show ?thesis
      proof (cases "remote (llm c) (buffer (memory c)) q")
        case (Inl e)
        with c False assms show ?thesis
          by (cases "is_Exception e")
             (simp_all add: handle_user_input_def handle_user_input_try_def reply_of_def st_emit
                invoke_def)
      next
        case (Inr r)
        with c False assms show ?thesis
          by (simp add: handle_user_input_def handle_user_input_try_def reply_of_def st_emit
              invoke_def Let_def)
      qed
    qed
  qed
qed

lemma submit_all_chat_history:
  "chat_history (st a) = Some h \<Longrightarrow>
   chat_history (st (submit_all xs a)) = Some (h @ successful_turns xs a)"
proof (induction xs arbitrary: a h)
  case Nil
  then show ?case by simp
next
  case (Cons x xs)
  obtain remote q where x: "x = (remote, q)" by (cases x)
  from handle_user_input_chat_history [OF Cons.prems, of remote q]
  have "chat_history (st (submit_all xs (snd (handle_user_input remote q a))))
          = Some ((h @ (case reply_of remote q a of None \<Rightarrow> [] | Some r \<Rightarrow> [\<lparr>human = q, AI = r\<rparr>]))
                  @ successful_turns xs (snd (handle_user_input remote q a)))"
    by (rule Cons.IH)
  then show ?case by (simp add: x)
qed

lemma length_successful_turns: "length (successful_turns xs a) = successes xs a"
proof (induction xs arbitrary: a)
  case Nil
  then show ?case by simp
next
  case (Cons x xs)
  obtain remote q where x: "x = (remote, q)" by (cases x)
  show ?case
    by (cases "reply_of remote q a") (simp_all add: x Cons.IH)
qed

text \<open>
  C4. Starting from an empty transcript, after any sequence of submissions the transcript
  is the list of the successful turns, in order, each the pair of its question and its
  reply; its length is the number of successful submissions. Blank submissions,
  submissions on an unset session and submissions whose remote call fails add nothing.
\<close>

theorem transcript_length_counts_successes:
  assumes "chat_history (st a) = Some []"
  shows "chat_history (st (submit_all xs a)) = Some (successful_turns xs a)
       \<and> length (successful_turns xs a) = successes xs a"
  using submit_all_chat_history [OF assms, of xs] length_successful_turns [of xs a] by simp



lemma strip_examples:
  "strip ''hello'' = ''hello''" "strip ''  '' = []" "strip ''boom'' = ''boom''" "strip ''how are you'' = ''how are you''"
  by (simp_all add: strip_def lstrip_tokens.simps whitespace_def)

theorem transcript_length_counts_successes_witness:
  "chat_history (st (submit_all
      [(\<lambda>c ctx q. Inr (''re: '' @ q), ''hello''),
       (\<lambda>c ctx q. Inr (''re: '' @ q), ''  ''),
       (\<lambda>c ctx q. Inl (RemoteError ''quota''), ''boom''),
       (\<lambda>c ctx q. Inr (''re: '' @ q), ''how are you'')]
      \<lparr>st = \<lparr>chat_history = Some [],
              conversation = Some (Some \<lparr>llm = \<lparr>api_key = Some ''gsk'', model_name = ''llama-3.1-8b-instant''\<rparr>,
                                         memory = \<lparr>k = 2, buffer = []\<rparr>\<rparr>),
              model = Some ''llama-3.1-8b-instant'', memory_length = Some 2\<rparr>,
       events = []\<rparr>))
   = Some [\<lparr>human = ''hello'', AI = ''re: hello''\<rparr>,
           \<lparr>human = ''how are you'', AI = ''re: how are you''\<rparr>]
   \<and> successes
      [(\<lambda>c ctx q. Inr (''re: '' @ q), ''hello''),
       (\<lambda>c ctx q. Inr (''re: '' @ q), ''  ''),
       (\<lambda>c ctx q. Inl (RemoteError ''quota''), ''boom''),
       (\<lambda>c ctx q. Inr (''re: '' @ q), ''how are you'')]
      \<lparr>st = \<lparr>chat_history = Some [],
              conversation = Some (Some \<lparr>llm = \<lparr>api_key = Some ''gsk'', model_name = ''llama-3.1-8b-instant''\<rparr>,
                                         memory = \<lparr>k = 2, buffer = []\<rparr>\<rparr>),
              model = Some ''llama-3.1-8b-instant'', memory_length = Some 2\<rparr>,
       events = []\<rparr> = 2"
proof -
  let ?ok = "\<lambda>c ctx q. Inr (''re: '' @ q) :: py_exn + string"
  let ?bad = "\<lambda>c ctx q. Inl (RemoteError ''quota'') :: py_exn + string"
  let ?xs = "[(?ok, ''hello''), (?ok, ''  ''), (?bad, ''boom''), (?ok, ''how are you'')]"
  let ?a = "\<lparr>st = \<lparr>chat_history = Some [],
              conversation = Some (Some \<lparr>llm = \<lparr>api_key = Some ''gsk'', model_name = ''llama-3.1-8b-instant''\<rparr>,
                                         memory = \<lparr>k = 2, buffer = []\<rparr>\<rparr>),
              model = Some ''llama-3.1-8b-instant'', memory_length = Some 2\<rparr>,
       events = []\<rparr>"
  have h: "chat_history (st ?a) = Some []" by simp
  have t: "successful_turns ?xs ?a = [\<lparr>human = ''hello'', AI = ''re: hello''\<rparr>,
           \<lparr>human = ''how are you'', AI = ''re: how are you''\<rparr>]"
    by (simp add: reply_of_def handle_user_input_def handle_user_input_try_def invoke_def
        save_context_def window_def emit_def strip_examples Let_def)
  note inst = transcript_length_counts_successes [OF h, of ?xs]
  from inst have "chat_history (st (submit_all ?xs ?a)) = Some (successful_turns ?xs ?a)"
    by (rule conjunct1)
  then have 1: "chat_history (st (submit_all ?xs ?a)) = Some [\<lparr>human = ''hello'', AI = ''re: hello''\<rparr>,
           \<lparr>human = ''how are you'', AI = ''re: how are you''\<rparr>]"
    unfolding t .
  from inst have "length (successful_turns ?xs ?a) = successes ?xs ?a"
    by (rule conjunct2)
  then have "successes ?xs ?a = length [\<lparr>human = ''hello'', AI = ''re: hello''\<rparr>,
           \<lparr>human = ''how are you'', AI = ''re: how are you''\<rparr>]"
    unfolding t by (rule sym)
  also have "\<dots> = 2" by simp
  finally have "successes ?xs ?a = 2" .
  with 1 show ?thesis by (rule conjI)
qed

subsection \<open>Building and storing a chain\<close>

lemma create_conversation_cases:
  assumes "chat_history s = Some h"
  shows "create_conversation validate key s name n =
           (case validate key name of
              Some e \<Rightarrow> Inl e
            | None \<Rightarrow> Inr \<lparr>llm = \<lparr>api_key = key, model_name = name\<rparr>,
                           memory = \<lparr>k = n, buffer = window n h\<rparr>\<rparr>)"
proof (cases "validate key name")
  case None
  with assms show ?thesis by (simp add: create_conversation_eq)
next
  case (Some e)
  with assms show ?thesis by (simp add: create_conversation_def ChatGroq_def)
qed

lemma handle_model_change_cases:
  assumes "model (st a) = Some m" and "memory_length (st a) = Some n"
    and "chat_history (st a) = Some h"
  shows "handle_model_change validate key a =
           (case validate key m of
              Some e \<Rightarrow> (Raised e, a)
            | None \<Rightarrow>
                (Returned,
                 a\<lparr>st := (st a)\<lparr>conversation :=
                    Some (Some \<lparr>llm = \<lparr>api_key = key, model_name = m\<rparr>,
                                memory = \<lparr>k = n, buffer = window n h\<rparr>\<rparr>)\<rparr>\<rparr>))"
  using assms
  by (cases "validate key m")
     (simp_all add: handle_model_change_def create_conversation_cases [OF assms(3)])

lemma handle_model_change_frame:
  "chat_history (st (snd (handle_model_change validate key a))) = chat_history (st a)
   \<and> model (st (snd (handle_model_change validate key a))) = model (st a)
   \<and> memory_length (st (snd (handle_model_change validate key a))) = memory_length (st a)
   \<and> events (snd (handle_model_change validate key a)) = events a"
proof (cases "model (st a)")
  case None
  then show ?thesis by (simp add: handle_model_change_def)
next
  case m: (Some m)
  show ?thesis
  proof (cases "memory_length (st a)")
    case None
    with m show ?thesis by (simp add: handle_model_change_def)
  next
    case n: (Some n)
    show ?thesis
      using m n
      by (cases "create_conversation validate key (st a) m n")
         (simp_all add: handle_model_change_def)
  qed
qed

text \<open>The session state after a reset, and whether the reset returned.\<close>

lemma reset_conversation_cases:
  "reset_conversation validate key a =
     (let a1 = a\<lparr>st := (st a)\<lparr>chat_history := Some []\<rparr>\<rparr> in
      case model (st a) of
        None \<Rightarrow> (Raised (attr_missing ''model''), a1)
      | Some m \<Rightarrow>
         (case memory_length (st a) of
            None \<Rightarrow> (Raised (attr_missing ''memory_length''), a1)
          | Some n \<Rightarrow>
             (case validate key m of
                Some e \<Rightarrow> (Raised e, a1)
              | None \<Rightarrow>
                  (Returned,
                   emit [st_rerun]
                     (a1\<lparr>st := (st a1)\<lparr>conversation :=
                        Some (Some \<lparr>llm = \<lparr>api_key = key, model_name = m\<rparr>,
                                    memory = \<lparr>k = n, buffer = []\<rparr>\<rparr>)\<rparr>\<rparr>)))))"
proof (cases "model (st a)")
  case None
  then show ?thesis
    by (simp add: reset_conversation_def handle_model_change_def and_then_def)
next
  case m: (Some m)
  show ?thesis
  proof (cases "memory_length (st a)")
    case None
    with m show ?thesis
      by (simp add: reset_conversation_def handle_model_change_def and_then_def)
  next
    case n: (Some n)
    let ?a1 = "a\<lparr>st := (st a)\<lparr>chat_history := Some []\<rparr>\<rparr>"
    have "handle_model_change validate key ?a1 =
           (case validate key m of
              Some e \<Rightarrow> (Raised e, ?a1)
            | None \<Rightarrow>
                (Returned,
                 ?a1\<lparr>st := (st ?a1)\<lparr>conversation :=
                    Some (Some \<lparr>llm = \<lparr>api_key = key, model_name = m\<rparr>,
                                memory = \<lparr>k = n, buffer = window n []\<rparr>\<rparr>)\<rparr>\<rparr>))"
      using m n by (intro handle_model_change_cases) simp_all
    then show ?thesis
      using m n
      by (cases "validate key m")
         (simp_all add: reset_conversation_def and_then_def window_def Let_def)
  qed
qed

subsection \<open>Reset\<close>

text \<open>
  C6. Reset is idempotent: a second \<open>reset_conversation\<close> right after the first ends the
  same way (returning, or raising the same exception) and leaves the same session state
  as the first alone. That state has the empty transcript and, when the configuration is
  present and the client constructor accepts it, a chain freshly built for the current
  model and memory length with an empty context.
\<close>

theorem reset_conversation_idempotent:
  "fst (reset_conversation validate key (snd (reset_conversation validate key a)))
     = fst (reset_conversation validate key a)
   \<and> st (snd (reset_conversation validate key (snd (reset_conversation validate key a))))
     = st (snd (reset_conversation validate key a))
   \<and> chat_history (st (snd (reset_conversation validate key a))) = Some []
   \<and> (model (st a) = Some m \<and> memory_length (st a) = Some n \<and> validate key m = None
        \<longrightarrow> reset_conversation validate key a
             = (Returned,
                \<lparr>st = \<lparr>chat_history = Some [],
                        conversation = Some (Some \<lparr>llm = \<lparr>api_key = key, model_name = m\<rparr>,
                                                   memory = \<lparr>k = n, buffer = []\<rparr>\<rparr>),
                        model = Some m, memory_length = Some n\<rparr>,
                 events = events a @ [st_rerun]\<rparr>))"
proof (cases "model (st a)")
  case None
  then show ?thesis
    by (simp add: reset_conversation_cases [of validate key])
next
  case m: (Some m')
  show ?thesis
  proof (cases "memory_length (st a)")
    case None
    with m show ?thesis
      by (simp add: reset_conversation_cases [of validate key])
  next
    case n: (Some n')
    show ?thesis
    proof (cases "validate key m'")
      case None
      with m n show ?thesis
        by (cases a, cases "st a")
           (simp add: reset_conversation_cases [of validate key] emit_def)
    next
      case (Some e)
      with m n show ?thesis
        by (auto simp add: reset_conversation_cases [of validate key])
    qed
  qed
qed


theorem reset_conversation_idempotent_witness:
  "reset_conversation (\<lambda>key name. None) (Some ''gsk'')
     \<lparr>st = \<lparr>chat_history = Some [\<lparr>human = ''q1'', AI = ''r1''\<rparr>],
             conversation = Some (Some \<lparr>llm = \<lparr>api_key = Some ''gsk'', model_name = ''llama-3.1-8b-instant''\<rparr>,
                                        memory = \<lparr>k = 5, buffer = [\<lparr>human = ''q1'', AI = ''r1''\<rparr>]\<rparr>\<rparr>),
             model = Some ''llama-3.1-8b-instant'', memory_length = Some 5\<rparr>,
      events = []\<rparr>
   = (Returned,
      \<lparr>st = \<lparr>chat_history = Some [],
              conversation = Some (Some \<lparr>llm = \<lparr>api_key = Some ''gsk'', model_name = ''llama-3.1-8b-instant''\<rparr>,
                                         memory = \<lparr>k = 5, buffer = []\<rparr>\<rparr>),
              model = Some ''llama-3.1-8b-instant'', memory_length = Some 5\<rparr>,
       events = [st_rerun]\<rparr>)
   \<and> st (snd (reset_conversation (\<lambda>key name. None) (Some ''gsk'')
         (snd (reset_conversation (\<lambda>key name. None) (Some ''gsk'')
           \<lparr>st = \<lparr>chat_history = Some [\<lparr>human = ''q1'', AI = ''r1''\<rparr>],
                   conversation = Some (Some \<lparr>llm = \<lparr>api_key = Some ''gsk'', model_name = ''llama-3.1-8b-instant''\<rparr>,
                                              memory = \<lparr>k = 5, buffer = [\<lparr>human = ''q1'', AI = ''r1''\<rparr>]\<rparr>\<rparr>),
                   model = Some ''llama-3.1-8b-instant'', memory_length = Some 5\<rparr>,
            events = []\<rparr>))))
     = \<lparr>chat_history = Some [],
        conversation = Some (Some \<lparr>llm = \<lparr>api_key = Some ''gsk'', model_name = ''llama-3.1-8b-instant''\<rparr>,
                                   memory = \<lparr>k = 5, buffer = []\<rparr>\<rparr>),
        model = Some ''llama-3.1-8b-instant'', memory_length = Some 5\<rparr>"
proof -
  let ?v = "\<lambda>key name. None :: py_exn option"
  let ?a = "\<lparr>st = \<lparr>chat_history = Some [\<lparr>human = ''q1'', AI = ''r1''\<rparr>],
             conversation = Some (Some \<lparr>llm = \<lparr>api_key = Some ''gsk'', model_name = ''llama-3.1-8b-instant''\<rparr>,
                                        memory = \<lparr>k = 5, buffer = [\<lparr>human = ''q1'', AI = ''r1''\<rparr>]\<rparr>\<rparr>),
             model = Some ''llama-3.1-8b-instant'', memory_length = Some 5\<rparr>,
          events = []\<rparr>"
  let ?b = "\<lparr>st = \<lparr>chat_history = Some [],
              conversation = Some (Some \<lparr>llm = \<lparr>api_key = Some ''gsk'', model_name = ''llama-3.1-8b-instant''\<rparr>,
                                         memory = \<lparr>k = 5, buffer = []\<rparr>\<rparr>),
              model = Some ''llama-3.1-8b-instant'', memory_length = Some 5\<rparr>,
       events = [st_rerun]\<rparr>"
  note inst = reset_conversation_idempotent [of ?v "Some ''gsk''" ?a "''llama-3.1-8b-instant''" 5]
  from inst have once: "reset_conversation ?v (Some ''gsk'') ?a = (Returned, ?b)"
    by simp
  from inst
  have "st (snd (reset_conversation ?v (Some ''gsk'') (snd (reset_conversation ?v (Some ''gsk'') ?a))))
          = st (snd (reset_conversation ?v (Some ''gsk'') ?a))"
    by blast
  also have "\<dots> = st ?b"
    by (simp only: once snd_conv)
  finally show ?thesis
    using once by simp
qed

lemma main_unsupported_model:
  assumes "model (st a) = Some name" and "name \<notin> set SUPPORTED_MODELS"
  shows "main validate remote key w a
           = (Raised (ValueError (repr name @ '' is not in list'')),
              a\<lparr>st := initialize_session_state (st a)\<rparr>)"
proof -
  have "model (initialize_session_state (st a)) = Some name"
    using assms(1) by (simp add: initialize_session_state_def Let_def)
  then have "main_sidebar validate key w (a\<lparr>st := initialize_session_state (st a)\<rparr>)
           = (Raised (ValueError (repr name @ '' is not in list'')),
              a\<lparr>st := initialize_session_state (st a)\<rparr>)"
    using assms(2) by (simp add: main_sidebar_def)
  then show ?thesis
    by (simp add: main_def and_then_def)
qed

subsection \<open>What \<open>create_conversation\<close> checks\<close>

text \<open>
  C9 (amended). \<open>create_conversation\<close> does not compare the model with \<open>SUPPORTED_MODELS\<close>:
  for every model identifier, in the list or not, and every memory length it fails exactly
  when the client constructor raises, with that exception, and otherwise returns the chain
  bound to that model with the window preloaded. Storing the new chain changes the
  \<open>conversation\<close> key only; nothing is shown and no request is sent. A stored model that is
  not in the list is stopped earlier, in \<open>main\<close>, by the \<^verbatim>\<open>ValueError\<close> of
  \<^verbatim>\<open>SUPPORTED_MODELS.index\<close>.
\<close>

theorem create_conversation_no_model_check:
  assumes "chat_history (st a) = Some h"
  shows "create_conversation validate key (st a) name n =
           (case validate key name of
              Some e \<Rightarrow> Inl e
            | None \<Rightarrow> Inr \<lparr>llm = \<lparr>api_key = key, model_name = name\<rparr>,
                           memory = \<lparr>k = n, buffer = window n h\<rparr>\<rparr>)
       \<and> (model (st a) = Some name \<and> memory_length (st a) = Some n \<and> validate key name = None
            \<longrightarrow> handle_model_change validate key a =
                  (Returned,
                   a\<lparr>st := (st a)\<lparr>conversation :=
                      Some (Some \<lparr>llm = \<lparr>api_key = key, model_name = name\<rparr>,
                                  memory = \<lparr>k = n, buffer = window n h\<rparr>\<rparr>)\<rparr>\<rparr>))
       \<and> (model (st a) = Some name \<and> name \<notin> set SUPPORTED_MODELS
            \<longrightarrow> main validate remote key w a
                  = (Raised (ValueError (repr name @ '' is not in list'')),
                     a\<lparr>st := initialize_session_state (st a)\<rparr>))"
proof -
  have "handle_model_change validate key a =
                  (Returned,
                   a\<lparr>st := (st a)\<lparr>conversation :=
                      Some (Some \<lparr>llm = \<lparr>api_key = key, model_name = name\<rparr>,
                                  memory = \<lparr>k = n, buffer = window n h\<rparr>\<rparr>)\<rparr>\<rparr>)"
    if "model (st a) = Some name" "memory_length (st a) = Some n" "validate key name = None"
    using handle_model_change_cases [OF that(1,2) assms, of validate key] that(3) by simp
  then show ?thesis
    using create_conversation_cases [OF assms, of validate key name n]
      main_unsupported_model [of a name validate remote key w]
    by blast
qed

theorem create_conversation_no_model_check_witness:
  "create_conversation (\<lambda>key name. None) (Some ''gsk'')
     \<lparr>chat_history = Some [\<lparr>human = ''q1'', AI = ''r1''\<rparr>], conversation = Some None,
      model = Some ''mixtral-8x7b-32768'', memory_length = Some 5\<rparr>
     ''mixtral-8x7b-32768'' 5
   = Inr \<lparr>llm = \<lparr>api_key = Some ''gsk'', model_name = ''mixtral-8x7b-32768''\<rparr>,
          memory = \<lparr>k = 5, buffer = [\<lparr>human = ''q1'', AI = ''r1''\<rparr>]\<rparr>\<rparr>
   \<and> handle_model_change (\<lambda>key name. None) (Some ''gsk'')
       \<lparr>st = \<lparr>chat_history = Some [\<lparr>human = ''q1'', AI = ''r1''\<rparr>], conversation = Some None,
               model = Some ''mixtral-8x7b-32768'', memory_length = Some 5\<rparr>,
        events = []\<rparr>
     = (Returned,
        \<lparr>st = \<lparr>chat_history = Some [\<lparr>human = ''q1'', AI = ''r1''\<rparr>],
                conversation = Some (Some \<lparr>llm = \<lparr>api_key = Some ''gsk'', model_name = ''mixtral-8x7b-32768''\<rparr>,
                                           memory = \<lparr>k = 5, buffer = [\<lparr>human = ''q1'', AI = ''r1''\<rparr>]\<rparr>\<rparr>),
                model = Some ''mixtral-8x7b-32768'', memory_length = Some 5\<rparr>,
         events = []\<rparr>)
   \<and> fst (main (\<lambda>key name. None) (\<lambda>c ctx q. Inr ''hi'') (Some ''gsk'')
            \<lparr>selectbox = ''llama-3.1-8b-instant'', slider = 5, chat_input = None\<rparr>
            \<lparr>st = \<lparr>chat_history = Some [\<lparr>human = ''q1'', AI = ''r1''\<rparr>], conversation = Some None,
                    model = Some ''mixtral-8x7b-32768'', memory_length = Some 5\<rparr>,
             events = []\<rparr>)
     = Raised (ValueError (repr ''mixtral-8x7b-32768'' @ '' is not in list''))"
  using create_conversation_no_model_check
    [of "\<lparr>st = \<lparr>chat_history = Some [\<lparr>human = ''q1'', AI = ''r1''\<rparr>], conversation = Some None,
               model = Some ''mixtral-8x7b-32768'', memory_length = Some 5\<rparr>,
        events = []\<rparr>"
        "[\<lparr>human = ''q1'', AI = ''r1''\<rparr>]"
        "\<lambda>key name. None" "Some ''gsk''" "''mixtral-8x7b-32768''" 5
        "\<lambda>c ctx q. Inr ''hi''" "\<lparr>selectbox = ''llama-3.1-8b-instant'', slider = 5, chat_input = None\<rparr>"]
  by (simp add: window_def SUPPORTED_MODELS_def)

text \<open>
  C9 as stated fails: a model outside \<open>SUPPORTED_MODELS\<close> that the client constructor
  accepts gives a chain, not an error.
\<close>

theorem create_conversation_unsupported_model_counterexample:
  "''mixtral-8x7b-32768'' \<notin> set SUPPORTED_MODELS
   \<and> create_conversation (\<lambda>key name. None) (Some ''gsk'')
       \<lparr>chat_history = Some [], conversation = Some None,
        model = Some ''llama-3.1-8b-instant'', memory_length = Some 5\<rparr>
       ''mixtral-8x7b-32768'' 5
     = Inr \<lparr>llm = \<lparr>api_key = Some ''gsk'', model_name = ''mixtral-8x7b-32768''\<rparr>,
            memory = \<lparr>k = 5, buffer = []\<rparr>\<rparr>"
  by (simp add: SUPPORTED_MODELS_def create_conversation_def ChatGroq_def preload_def new_memory_def)

subsection \<open>One run of the script\<close>

lemma and_then_Returned: "fst r = Returned \<Longrightarrow> and_then r f = f (snd r)"
  by (cases r) (simp add: and_then_def)

lemma and_then_Raised: "fst r \<noteq> Returned \<Longrightarrow> and_then r f = r"
  by (cases r; cases "fst r") (simp_all add: and_then_def)

lemma requests_emit: "requests (emit es a) = requests a @ filter is_request es"
  by (simp add: requests_def emit_def)

lemma requests_st_update: "requests (a\<lparr>st := s\<rparr>) = requests a"
  by (simp add: requests_def)

lemma handle_model_change_requests: "requests (snd (handle_model_change validate key a)) = requests a"
  using handle_model_change_frame [of validate key a] by (simp add: requests_def)

lemma handle_model_change_chat_history:
  "chat_history (st (snd (handle_model_change validate key a))) = chat_history (st a)"
  using handle_model_change_frame [of validate key a] by simp

text \<open>The sidebar never touches the transcript and never sends a request.\<close>

lemma main_sidebar_frame:
  "chat_history (st (snd (main_sidebar validate key w a))) = chat_history (st a)
   \<and> requests (snd (main_sidebar validate key w a)) = requests a"
proof (cases "model (st a)")
  case None
  then show ?thesis by (simp add: main_sidebar_def)
next
  case m: (Some m)
  show ?thesis
  proof (cases "m \<in> set SUPPORTED_MODELS")
    case False
    with m show ?thesis by (simp add: main_sidebar_def)
  next
    case True
    define r1 where "r1 =
      (if selectbox w \<noteq> m
       then handle_model_change validate key (a\<lparr>st := (st a)\<lparr>model := Some (selectbox w)\<rparr>\<rparr>)
       else (Returned, a))"
    define step2 where "step2 = (\<lambda>a. case memory_length (st a) of
                      None \<Rightarrow> (Raised (attr_missing ''memory_length''), a)
                    | Some n \<Rightarrow>
                        and_then
                          (if slider w \<noteq> n
                           then handle_model_change validate key
                                  (a\<lparr>st := (st a)\<lparr>memory_length := Some (slider w)\<rparr>\<rparr>)
                           else (Returned, a))
                          (\<lambda>a. (Returned,
                                 emit [if truthy key
                                       then st_success ''Groq API Key: Connected''
                                       else st_error missing_key_text] a)))"
    have eq: "main_sidebar validate key w a = and_then r1 step2"
      using m True by (simp add: main_sidebar_def r1_def step2_def)
    have f1: "chat_history (st (snd r1)) = chat_history (st a) \<and> requests (snd r1) = requests a"
      by (simp add: r1_def handle_model_change_chat_history handle_model_change_requests
          requests_st_update)
    have f2: "chat_history (st (snd (step2 b))) = chat_history (st b)
              \<and> requests (snd (step2 b)) = requests b" for b
    proof (cases "memory_length (st b)")
      case None
      then show ?thesis by (simp add: step2_def)
    next
      case (Some n)
      define r2 where "r2 = (if slider w \<noteq> n
                           then handle_model_change validate key
                                  (b\<lparr>st := (st b)\<lparr>memory_length := Some (slider w)\<rparr>\<rparr>)
                           else (Returned, b))"
      have g: "chat_history (st (snd r2)) = chat_history (st b) \<and> requests (snd r2) = requests b"
        by (simp add: r2_def handle_model_change_chat_history handle_model_change_requests
            requests_st_update)
      have "step2 b = and_then r2 (\<lambda>a. (Returned,
                                 emit [if truthy key
                                       then st_success ''Groq API Key: Connected''
                                       else st_error missing_key_text] a))"
        using Some by (simp add: step2_def r2_def)
      then show ?thesis
        using g
        by (cases "fst r2 = Returned")
           (simp_all add: and_then_Returned and_then_Raised st_emit requests_emit)
    qed
    show ?thesis
      unfolding eq using f1 f2 [of "snd r1"]
      by (cases "fst r1 = Returned") (simp_all add: and_then_Returned and_then_Raised)
  qed
qed

lemma filter_is_request_history:
  "filter is_request (concat (map (\<lambda>message. [chat_message ''user'' (human message),
                                                 chat_message ''assistant'' (AI message)])
                              (h :: message list))) = []"
  by (induction h) simp_all

text \<open>
  C8. When no credential is available, the session must be blocked without a crash: the
  missing credential is reported and chat input is disabled. The code breaks this on the
  first run of a session whose key is unset, where the client constructor rejects the
  missing key with \<open>e\<close>: \<open>main\<close> builds the chain (lines 159 to 163) before it tests the
  key (lines 170 to 173), so \<open>e\<close> leaves \<open>main\<close> uncaught. The run ends with the exception
  after the sidebar's status message; the history display, the key test with its error
  message and return, and the chat input are never reached, and the conversation stays
  unset, so every later run ends the same way.
\<close>

theorem main_missing_key_raises_before_guard:
  assumes "validate None ''llama-3.1-8b-instant'' = Some e"
  shows "main validate remote None
     \<lparr>selectbox = ''llama-3.1-8b-instant'', slider = 5, chat_input = ci\<rparr>
     \<lparr>st = \<lparr>chat_history = None, conversation = None, model = None, memory_length = None\<rparr>,
      events = []\<rparr>
   = (Raised e,
      \<lparr>st = \<lparr>chat_history = Some [], conversation = Some None,
              model = Some ''llama-3.1-8b-instant'', memory_length = Some 5\<rparr>,
       events = [st_error missing_key_text]\<rparr>)
   \<and> main validate remote None
     \<lparr>selectbox = ''llama-3.1-8b-instant'', slider = 5, chat_input = ci\<rparr>
     \<lparr>st = \<lparr>chat_history = Some [], conversation = Some None,
             model = Some ''llama-3.1-8b-instant'', memory_length = Some 5\<rparr>,
      events = []\<rparr>
   = (Raised e,
      \<lparr>st = \<lparr>chat_history = Some [], conversation = Some None,
              model = Some ''llama-3.1-8b-instant'', memory_length = Some 5\<rparr>,
       events = [st_error missing_key_text]\<rparr>)"
  using assms
  by (simp add: main_def main_sidebar_def main_chat_def and_then_def initialize_session_state_def
      SUPPORTED_MODELS_def truthy_def emit_def handle_model_change_def create_conversation_def
      ChatGroq_def preload_def new_memory_def Let_def)

theorem main_missing_key_raises_before_guard_witness:
  "main (\<lambda>key name. case key of None \<Rightarrow> Some (ClientError ''The api_key client option must be set'')
                                 | Some x \<Rightarrow> None)
     (\<lambda>c ctx q. Inr ''hi'') None
     \<lparr>selectbox = ''llama-3.1-8b-instant'', slider = 5, chat_input = Some ''hello''\<rparr>
     \<lparr>st = \<lparr>chat_history = None, conversation = None, model = None, memory_length = None\<rparr>,
      events = []\<rparr>
   = (Raised (ClientError ''The api_key client option must be set''),
      \<lparr>st = \<lparr>chat_history = Some [], conversation = Some None,
              model = Some ''llama-3.1-8b-instant'', memory_length = Some 5\<rparr>,
       events = [st_error missing_key_text]\<rparr>)"
proof -
  let ?v = "\<lambda>key name. case key of
              None \<Rightarrow> Some (ClientError ''The api_key client option must be set'')
            | Some (x :: string) \<Rightarrow> None"
  have "?v None ''llama-3.1-8b-instant'' = Some (ClientError ''The api_key client option must be set'')"
    by simp
  from main_missing_key_raises_before_guard
    [of ?v "ClientError ''The api_key client option must be set''" "\<lambda>c ctx q. Inr ''hi''"
        "Some ''hello''", OF this]
  show ?thesis by (rule conjunct1)
qed

subsection \<open>Configuration change\<close>

lemma initialize_session_state_present:
  assumes "chat_history s \<noteq> None" and "conversation s \<noteq> None" and "model s \<noteq> None"
    and "memory_length s \<noteq> None"
  shows "initialize_session_state s = s"
  using assms by (simp add: initialize_session_state_def Let_def)

text \<open>Without a chat input the chat interface leaves the transcript alone and sends nothing.\<close>

lemma main_chat_no_input:
  assumes "\<not> truthy (chat_input w)"
  shows "chat_history (st (snd (main_chat validate remote key w a))) = chat_history (st a)
       \<and> requests (snd (main_chat validate remote key w a)) = requests a"
proof -
  define r0 where "r0 =
       (case conversation (st a) of
          None \<Rightarrow> (Raised (attr_missing ''conversation''), a)
        | Some None \<Rightarrow> handle_model_change validate key a
        | Some (Some c) \<Rightarrow> (Returned, a))"
  define show_history where "show_history = (\<lambda>a. case chat_history (st a) of
               None \<Rightarrow> (Raised (attr_missing ''chat_history''), a)
             | Some h \<Rightarrow>
                 (let a1 = emit (concat (map (\<lambda>message. [chat_message ''user'' (human message),
                                                           chat_message ''assistant'' (AI message)]) h)) a
                  in if \<not> truthy key then (Returned, emit [st_error missing_key_text] a1)
                     else if truthy (chat_input w) then handle_user_input remote (the (chat_input w)) a1
                     else (Returned, a1)))"
  have eq: "main_chat validate remote key w a = and_then r0 show_history"
    unfolding main_chat_def r0_def show_history_def by (rule refl)
  have f0: "chat_history (st (snd r0)) = chat_history (st a) \<and> requests (snd r0) = requests a"
    unfolding r0_def
    by (simp add: handle_model_change_chat_history handle_model_change_requests
        split: option.split)
  have f1: "chat_history (st (snd (show_history b))) = chat_history (st b)
          \<and> requests (snd (show_history b)) = requests b" for b
    using assms
    by (cases "chat_history (st b)"; cases "truthy key")
       (simp_all add: show_history_def st_emit requests_emit filter_is_request_history Let_def)
  show ?thesis
    unfolding eq using f0 f1 [of "snd r0"]
    by (cases "fst r0 = Returned") (simp_all add: and_then_Returned and_then_Raised)
qed

lemma main_no_input:
  assumes "\<not> truthy (chat_input w)"
  shows "chat_history (st (snd (main validate remote key w a)))
           = chat_history (initialize_session_state (st a))
       \<and> requests (snd (main validate remote key w a)) = requests a"
proof -
  let ?r = "main_sidebar validate key w (a\<lparr>st := initialize_session_state (st a)\<rparr>)"
  have side: "chat_history (st (snd ?r)) = chat_history (initialize_session_state (st a))"
    "requests (snd ?r) = requests a"
    using main_sidebar_frame [of validate key w "a\<lparr>st := initialize_session_state (st a)\<rparr>"]
    by (simp_all add: requests_st_update)
  show ?thesis
    using side main_chat_no_input [OF assms, of validate remote key "snd ?r"]
    by (cases "fst ?r = Returned") (simp_all add: main_def and_then_Returned and_then_Raised)
qed

text \<open>The sidebar after a change of the model or of the memory length, when the client
  constructor accepts the selected model.\<close>

lemma main_sidebar_change:
  assumes "chat_history (st a) = Some h" and "model (st a) = Some m"
    and "m \<in> set SUPPORTED_MODELS" and "memory_length (st a) = Some n"
    and "selectbox w \<noteq> m \<or> slider w \<noteq> n"
    and "validate key (selectbox w) = None"
  shows "\<exists>b. main_sidebar validate key w a = (Returned, b)
           \<and> st b = (st a)\<lparr>conversation :=
                        Some (Some \<lparr>llm = \<lparr>api_key = key, model_name = selectbox w\<rparr>,
                                    memory = \<lparr>k = slider w, buffer = window (slider w) h\<rparr>\<rparr>),
                      model := Some (selectbox w), memory_length := Some (slider w)\<rparr>
           \<and> requests b = requests a"
proof -
  let ?status = "[if truthy key then st_success ''Groq API Key: Connected''
                  else st_error missing_key_text]"
  define a1 where "a1 = a\<lparr>st := (st a)\<lparr>model := Some (selectbox w)\<rparr>\<rparr>"
  have a1: "model (st a1) = Some (selectbox w)" "memory_length (st a1) = Some n"
    "chat_history (st a1) = Some h"
    using assms by (simp_all add: a1_def)
  define b1 where "b1 = (if selectbox w \<noteq> m
      then a1\<lparr>st := (st a1)\<lparr>conversation :=
                    Some (Some \<lparr>llm = \<lparr>api_key = key, model_name = selectbox w\<rparr>,
                                memory = \<lparr>k = n, buffer = window n h\<rparr>\<rparr>)\<rparr>\<rparr>
      else a)"
  have step1: "(if selectbox w \<noteq> m then handle_model_change validate key a1 else (Returned, a))
                 = (Returned, b1)"
    using handle_model_change_cases [OF a1, of validate key] assms(6)
    by (simp add: b1_def)
  have b1: "model (st b1) = Some (selectbox w)" "memory_length (st b1) = Some n"
    "chat_history (st b1) = Some h"
    using assms by (auto simp add: b1_def a1_def)
  define a2 where "a2 = b1\<lparr>st := (st b1)\<lparr>memory_length := Some (slider w)\<rparr>\<rparr>"
  have a2: "model (st a2) = Some (selectbox w)" "memory_length (st a2) = Some (slider w)"
    "chat_history (st a2) = Some h"
    using b1 by (simp_all add: a2_def)
  define b2 where "b2 = (if slider w \<noteq> n
      then a2\<lparr>st := (st a2)\<lparr>conversation :=
                    Some (Some \<lparr>llm = \<lparr>api_key = key, model_name = selectbox w\<rparr>,
                                memory = \<lparr>k = slider w, buffer = window (slider w) h\<rparr>\<rparr>)\<rparr>\<rparr>
      else b1)"
  have step2: "(if slider w \<noteq> n then handle_model_change validate key a2 else (Returned, b1))
                 = (Returned, b2)"
    using handle_model_change_cases [OF a2, of validate key] assms(6)
    by (simp add: b2_def)
  define status where "status = (\<lambda>a. (Returned, emit ?status a))"
  define second where "second = (\<lambda>a. case memory_length (st a) of
                      None \<Rightarrow> (Raised (attr_missing ''memory_length''), a)
                    | Some n \<Rightarrow>
                        and_then
                          (if slider w \<noteq> n
                           then handle_model_change validate key
                                  (a\<lparr>st := (st a)\<lparr>memory_length := Some (slider w)\<rparr>\<rparr>)
                           else (Returned, a))
                          status)"
  have "main_sidebar validate key w a
          = and_then (if selectbox w \<noteq> m then handle_model_change validate key a1
                      else (Returned, a)) second"
    unfolding main_sidebar_def a1_def second_def status_def using assms(2,3)
    by (simp split del: if_split)
  also have "\<dots> = second b1"
    unfolding step1 by (simp add: and_then_def)
  also have "\<dots> = and_then (if slider w \<noteq> n then handle_model_change validate key a2
                               else (Returned, b1)) status"
    unfolding second_def a2_def using b1(2)
    by (simp split del: if_split)
  also have "\<dots> = status b2"
    unfolding step2 by (simp add: and_then_def)
  finally have "main_sidebar validate key w a = (Returned, emit ?status b2)"
    by (simp add: status_def)
  moreover have "st (emit ?status b2) = (st a)\<lparr>conversation :=
                        Some (Some \<lparr>llm = \<lparr>api_key = key, model_name = selectbox w\<rparr>,
                                    memory = \<lparr>k = slider w, buffer = window (slider w) h\<rparr>\<rparr>),
                      model := Some (selectbox w), memory_length := Some (slider w)\<rparr>"
    using assms(2,4,5)
    by (cases "st a") (auto simp add: st_emit b2_def a2_def b1_def a1_def)
  moreover have "requests (emit ?status b2) = requests a"
    by (simp add: requests_def emit_def b2_def a2_def b1_def a1_def)
  ultimately show ?thesis by blast
qed


lemma main_chat_built_no_input:
  assumes "conversation (st b) = Some (Some c)" and "chat_history (st b) = Some h"
    and "\<not> truthy (chat_input w)"
  shows "\<exists>b'. main_chat validate remote key w b = (Returned, b')
            \<and> st b' = st b \<and> requests b' = requests b"
  using assms
  by (cases "truthy key")
     (simp_all add: main_chat_def and_then_def Let_def st_emit requests_emit
        filter_is_request_history)

text \<open>
  C5. A run of \<open>main\<close> in which the select box or the slider differs from the stored
  configuration, and no message is submitted, leaves the transcript as it was and sends no
  request, whatever the client constructor does. When the constructor accepts the selected
  model, the run returns; the stored model and memory length are the widgets' values and
  the conversation is a chain rebuilt from the existing transcript: its context is the
  transcript without its first \<open>length h - slider w\<close> turns. The witness is the spec's
  scenario: ten turns, memory length changed from 5 to 3.
\<close>

theorem main_configuration_change:
  assumes "chat_history (st a) = Some h" and "conversation (st a) = Some cv"
    and "model (st a) = Some m" and "m \<in> set SUPPORTED_MODELS"
    and "memory_length (st a) = Some n"
    and "chat_input w = None"
    and "selectbox w \<noteq> m \<or> slider w \<noteq> n"
  shows "chat_history (st (snd (main validate remote key w a))) = Some h
       \<and> requests (snd (main validate remote key w a)) = requests a
       \<and> (validate key (selectbox w) = None \<longrightarrow>
            (\<exists>a'. main validate remote key w a = (Returned, a')
               \<and> st a' = \<lparr>chat_history = Some h,
                           conversation =
                             Some (Some \<lparr>llm = \<lparr>api_key = key, model_name = selectbox w\<rparr>,
                                         memory = \<lparr>k = slider w,
                                                   buffer = drop (length h - nat (slider w)) h\<rparr>\<rparr>),
                           model = Some (selectbox w),
                           memory_length = Some (slider w)\<rparr>))"
proof -
  have init: "initialize_session_state (st a) = st a"
    using assms(1,2,3,5) by (intro initialize_session_state_present) simp_all
  have no_input: "\<not> truthy (chat_input w)"
    using assms(6) by (simp add: truthy_def)
  have frame: "chat_history (st (snd (main validate remote key w a))) = Some h"
    "requests (snd (main validate remote key w a)) = requests a"
    using main_no_input [OF no_input, of validate remote key a] assms(1) init by simp_all
  have built: "\<exists>a'. main validate remote key w a = (Returned, a')
               \<and> st a' = \<lparr>chat_history = Some h,
                           conversation =
                             Some (Some \<lparr>llm = \<lparr>api_key = key, model_name = selectbox w\<rparr>,
                                         memory = \<lparr>k = slider w,
                                                   buffer = drop (length h - nat (slider w)) h\<rparr>\<rparr>),
                           model = Some (selectbox w),
                           memory_length = Some (slider w)\<rparr>"
    if accept: "validate key (selectbox w) = None"
  proof -
    let ?c = "\<lparr>llm = \<lparr>api_key = key, model_name = selectbox w\<rparr>,
               memory = \<lparr>k = slider w, buffer = window (slider w) h\<rparr>\<rparr>"
    from main_sidebar_change [of a h m n w validate key] assms(1,3,4,5,7) accept
    obtain b where b: "main_sidebar validate key w a = (Returned, b)"
      and stb: "st b = (st a)\<lparr>conversation := Some (Some ?c),
                      model := Some (selectbox w), memory_length := Some (slider w)\<rparr>"
      by blast
    have "conversation (st b) = Some (Some ?c)" and "chat_history (st b) = Some h"
      using stb assms(1) by simp_all
    from main_chat_built_no_input [OF this no_input, of validate remote key]
    obtain b' where b': "main_chat validate remote key w b = (Returned, b')" and "st b' = st b"
      by blast
    have "main validate remote key w a = (Returned, b')"
      using b b' by (simp add: main_def init and_then_def)
    moreover have "st b' = \<lparr>chat_history = Some h, conversation = Some (Some ?c),
                           model = Some (selectbox w), memory_length = Some (slider w)\<rparr>"
      using \<open>st b' = st b\<close> stb assms(1) by (cases "st a") simp
    ultimately show ?thesis
      by (auto simp add: window_def)
  qed
  from frame built show ?thesis by blast
qed


theorem main_configuration_change_witness:
  "\<exists>a'. main (\<lambda>key name. None) (\<lambda>c ctx q. Inr ''hi'') (Some ''gsk'')
          \<lparr>selectbox = ''llama-3.1-8b-instant'', slider = 3, chat_input = None\<rparr>
          \<lparr>st = \<lparr>chat_history = Some
           [\<lparr>human = ''q1'', AI = ''r1''\<rparr>, \<lparr>human = ''q2'', AI = ''r2''\<rparr>,
            \<lparr>human = ''q3'', AI = ''r3''\<rparr>, \<lparr>human = ''q4'', AI = ''r4''\<rparr>,
            \<lparr>human = ''q5'', AI = ''r5''\<rparr>, \<lparr>human = ''q6'', AI = ''r6''\<rparr>,
            \<lparr>human = ''q7'', AI = ''r7''\<rparr>, \<lparr>human = ''q8'', AI = ''r8''\<rparr>,
            \<lparr>human = ''q9'', AI = ''r9''\<rparr>, \<lparr>human = ''q10'', AI = ''r10''\<rparr>],
         conversation = Some (Some
          \<lparr>llm = \<lparr>api_key = Some ''gsk'', model_name = ''llama-3.1-8b-instant''\<rparr>,
           memory = \<lparr>k = 5, buffer =
           [\<lparr>human = ''q6'', AI = ''r6''\<rparr>, \<lparr>human = ''q7'', AI = ''r7''\<rparr>,
            \<lparr>human = ''q8'', AI = ''r8''\<rparr>, \<lparr>human = ''q9'', AI = ''r9''\<rparr>,
            \<lparr>human = ''q10'', AI = ''r10''\<rparr>]\<rparr>\<rparr>),
         model = Some ''llama-3.1-8b-instant'', memory_length = Some 5\<rparr>,
      events = []\<rparr>
        = (Returned, a')
      \<and> chat_history (st a') = Some
           [\<lparr>human = ''q1'', AI = ''r1''\<rparr>, \<lparr>human = ''q2'', AI = ''r2''\<rparr>,
            \<lparr>human = ''q3'', AI = ''r3''\<rparr>, \<lparr>human = ''q4'', AI = ''r4''\<rparr>,
            \<lparr>human = ''q5'', AI = ''r5''\<rparr>, \<lparr>human = ''q6'', AI = ''r6''\<rparr>,
            \<lparr>human = ''q7'', AI = ''r7''\<rparr>, \<lparr>human = ''q8'', AI = ''r8''\<rparr>,
            \<lparr>human = ''q9'', AI = ''r9''\<rparr>, \<lparr>human = ''q10'', AI = ''r10''\<rparr>]
      \<and> length
           [\<lparr>human = ''q1'', AI = ''r1''\<rparr>, \<lparr>human = ''q2'', AI = ''r2''\<rparr>,
            \<lparr>human = ''q3'', AI = ''r3''\<rparr>, \<lparr>human = ''q4'', AI = ''r4''\<rparr>,
            \<lparr>human = ''q5'', AI = ''r5''\<rparr>, \<lparr>human = ''q6'', AI = ''r6''\<rparr>,
            \<lparr>human = ''q7'', AI = ''r7''\<rparr>, \<lparr>human = ''q8'', AI = ''r8''\<rparr>,
            \<lparr>human = ''q9'', AI = ''r9''\<rparr>, \<lparr>human = ''q10'', AI = ''r10''\<rparr>] = 10
      \<and> conversation (st a') = Some (Some
           \<lparr>llm = \<lparr>api_key = Some ''gsk'', model_name = ''llama-3.1-8b-instant''\<rparr>,
            memory = \<lparr>k = 3, buffer =
            [\<lparr>human = ''q8'', AI = ''r8''\<rparr>, \<lparr>human = ''q9'', AI = ''r9''\<rparr>,
            \<lparr>human = ''q10'', AI = ''r10''\<rparr>]\<rparr>\<rparr>)
      \<and> model (st a') = Some ''llama-3.1-8b-instant''
      \<and> memory_length (st a') = Some 3"
proof -
  let ?h = "[\<lparr>human = ''q1'', AI = ''r1''\<rparr>, \<lparr>human = ''q2'', AI = ''r2''\<rparr>,
            \<lparr>human = ''q3'', AI = ''r3''\<rparr>, \<lparr>human = ''q4'', AI = ''r4''\<rparr>,
            \<lparr>human = ''q5'', AI = ''r5''\<rparr>, \<lparr>human = ''q6'', AI = ''r6''\<rparr>,
            \<lparr>human = ''q7'', AI = ''r7''\<rparr>, \<lparr>human = ''q8'', AI = ''r8''\<rparr>,
            \<lparr>human = ''q9'', AI = ''r9''\<rparr>, \<lparr>human = ''q10'', AI = ''r10''\<rparr>]"
  let ?cv = "Some
          \<lparr>llm = \<lparr>api_key = Some ''gsk'', model_name = ''llama-3.1-8b-instant''\<rparr>,
           memory = \<lparr>k = 5, buffer =
           [\<lparr>human = ''q6'', AI = ''r6''\<rparr>, \<lparr>human = ''q7'', AI = ''r7''\<rparr>,
            \<lparr>human = ''q8'', AI = ''r8''\<rparr>, \<lparr>human = ''q9'', AI = ''r9''\<rparr>,
            \<lparr>human = ''q10'', AI = ''r10''\<rparr>]\<rparr>\<rparr>"
  let ?a = "\<lparr>st = \<lparr>chat_history = Some
           [\<lparr>human = ''q1'', AI = ''r1''\<rparr>, \<lparr>human = ''q2'', AI = ''r2''\<rparr>,
            \<lparr>human = ''q3'', AI = ''r3''\<rparr>, \<lparr>human = ''q4'', AI = ''r4''\<rparr>,
            \<lparr>human = ''q5'', AI = ''r5''\<rparr>, \<lparr>human = ''q6'', AI = ''r6''\<rparr>,
            \<lparr>human = ''q7'', AI = ''r7''\<rparr>, \<lparr>human = ''q8'', AI = ''r8''\<rparr>,
            \<lparr>human = ''q9'', AI = ''r9''\<rparr>, \<lparr>human = ''q10'', AI = ''r10''\<rparr>],
         conversation = Some (Some
          \<lparr>llm = \<lparr>api_key = Some ''gsk'', model_name = ''llama-3.1-8b-instant''\<rparr>,
           memory = \<lparr>k = 5, buffer =
           [\<lparr>human = ''q6'', AI = ''r6''\<rparr>, \<lparr>human = ''q7'', AI = ''r7''\<rparr>,
            \<lparr>human = ''q8'', AI = ''r8''\<rparr>, \<lparr>human = ''q9'', AI = ''r9''\<rparr>,
            \<lparr>human = ''q10'', AI = ''r10''\<rparr>]\<rparr>\<rparr>),
         model = Some ''llama-3.1-8b-instant'', memory_length = Some 5\<rparr>,
      events = []\<rparr>"
  let ?w = "\<lparr>selectbox = ''llama-3.1-8b-instant'', slider = 3, chat_input = None\<rparr>"
  let ?v = "\<lambda>key name. None :: py_exn option"
  let ?remote = "\<lambda>c ctx q. Inr ''hi'' :: py_exn + string"
  have p: "chat_history (st ?a) = Some ?h" "conversation (st ?a) = Some ?cv"
    "model (st ?a) = Some ''llama-3.1-8b-instant''"
    "''llama-3.1-8b-instant'' \<in> set SUPPORTED_MODELS"
    "memory_length (st ?a) = Some 5" "chat_input ?w = None"
    "selectbox ?w \<noteq> ''llama-3.1-8b-instant'' \<or> slider ?w \<noteq> 5"
    by (simp_all add: SUPPORTED_MODELS_def)
  have acc: "?v (Some ''gsk'') (selectbox ?w) = None" by simp
  from main_configuration_change [OF p, of ?v ?remote "Some ''gsk''"] acc
  obtain a' where "main ?v ?remote (Some ''gsk'') ?w ?a = (Returned, a')"
    and "st a' = \<lparr>chat_history = Some ?h,
                  conversation =
                    Some (Some \<lparr>llm = \<lparr>api_key = Some ''gsk'', model_name = selectbox ?w\<rparr>,
                                memory = \<lparr>k = slider ?w,
                                          buffer = drop (length ?h - nat (slider ?w)) ?h\<rparr>\<rparr>),
                  model = Some (selectbox ?w),
                  memory_length = Some (slider ?w)\<rparr>"
    by blast
  then show ?thesis
    by (intro exI [of _ a']) simp
qed

end
